theory Spec2Isabelle
  imports Main "HOL-Library.Word"
begin

section \<open>Network I/O module of the Lua/APR binding (io\_net.c)\<close>

text \<open>
  The functions of \<^verbatim>\<open>src/io_net.c\<close> are Lua C functions: they read their arguments from
  the Lua stack, call the APR socket layer, mutate the socket userdata and return values
  to Lua, or leave by \<^verbatim>\<open>luaL_error\<close>/\<^verbatim>\<open>luaL_argerror\<close> (a longjmp). The embedding threads
  an explicit \<open>world\<close> (the socket userdata, the native layer and the log of native calls)
  through every function; a function returns a \<open>result\<close> and the new world.
\<close>

subsection \<open>Lua values and the fragment of the Lua 5.1 C API the file uses\<close>

type_synonym apr_status_t = int
type_synonym lua_Integer = "64 word"
type_synonym apr_interval_time_t = "64 word"
type_synonym apr_int32_t = "32 word"
type_synonym apr_port_t = "16 word"

abbreviation APR_SUCCESS :: apr_status_t where
  "APR_SUCCESS \<equiv> 0"

text \<open>
  A Lua number is represented by the \<^verbatim>\<open>lua_Integer\<close> that \<^verbatim>\<open>luaL_checkinteger\<close> reads from
  it and that \<^verbatim>\<open>lua_pushinteger\<close> writes (an LP64 platform: 64 bits, two's complement, read
  with \<open>sint\<close>). Fractional doubles and doubles outside that range are outside the model.
  A string that Lua converts to a number (\<^verbatim>\<open>lua_tonumber\<close>, which is \<^verbatim>\<open>strtod\<close> in the Lua
  core and not part of the model) is represented in the same way, by its bytes and the
  \<^verbatim>\<open>lua_Integer\<close> read from it: the string \<^verbatim>\<open>"10"\<close> is \<open>LNumeral ''10'' 10\<close>. \<open>LString s\<close> is
  a string that Lua does not convert to a number, or a string that a function returns.
  \<open>LUserdata a\<close> is the userdata at address \<open>a\<close>.
\<close>

datatype lua_value =
    LNil
  | LBoolean bool
  | LNumber lua_Integer
  | LString string
  | LNumeral string lua_Integer
  | LTable
  | LFunction
  | LUserdata nat

text \<open>
  \<^verbatim>\<open>luaL_error\<close> raises a message; \<^verbatim>\<open>luaL_argerror\<close> and \<^verbatim>\<open>luaL_typerror\<close> raise a parameter
  error that names the argument.
\<close>

datatype lua_error =
    Error_msg string
  | Arg_error nat string

text \<open>
  How a C function ends: it returns, it raises a Lua error, or it dereferences a pointer
  that was never assigned (no defined behaviour in C).
\<close>

datatype 'a result =
    Return 'a
  | Raise lua_error
  | Uninitialised_deref

text \<open>The value at stack index \<open>i\<close> (from 1); \<open>None\<close> is \<^verbatim>\<open>LUA_TNONE\<close>.\<close>

definition arg :: "lua_value list \<Rightarrow> nat \<Rightarrow> lua_value option" where
  "arg args i = (if 1 \<le> i \<and> i \<le> length args then Some (args ! (i - 1)) else None)"

fun luaL_typename :: "lua_value option \<Rightarrow> string" where
  "luaL_typename None = ''no value''"
| "luaL_typename (Some LNil) = ''nil''"
| "luaL_typename (Some (LBoolean b)) = ''boolean''"
| "luaL_typename (Some (LNumber n)) = ''number''"
| "luaL_typename (Some (LString s)) = ''string''"
| "luaL_typename (Some (LNumeral s n)) = ''string''"
| "luaL_typename (Some LTable) = ''table''"
| "luaL_typename (Some LFunction) = ''function''"
| "luaL_typename (Some (LUserdata a)) = ''userdata''"

definition luaL_typerror :: "lua_value list \<Rightarrow> nat \<Rightarrow> string \<Rightarrow> lua_error" where
  "luaL_typerror args narg tname =
     Arg_error narg (tname @ '' expected, got '' @ luaL_typename (arg args narg))"

text \<open>\<^verbatim>\<open>lua_toboolean\<close>: false for \<^verbatim>\<open>false\<close>, \<^verbatim>\<open>nil\<close> and a missing argument, true otherwise.\<close>

fun lua_toboolean :: "lua_value option \<Rightarrow> bool" where
  "lua_toboolean None = False"
| "lua_toboolean (Some LNil) = False"
| "lua_toboolean (Some (LBoolean b)) = b"
| "lua_toboolean (Some v) = True"

text \<open>\<^verbatim>\<open>lua_isnumber\<close>: a number, or a string convertible to a number.\<close>

fun lua_isnumber :: "lua_value option \<Rightarrow> bool" where
  "lua_isnumber (Some (LNumber n)) = True"
| "lua_isnumber (Some (LNumeral s n)) = True"
| "lua_isnumber v = False"

text \<open>\<^verbatim>\<open>luaL_checkinteger\<close>: the integer of a number or of a convertible string, else a
  parameter error.\<close>

definition luaL_checkinteger :: "lua_value list \<Rightarrow> nat \<Rightarrow> lua_Integer result" where
  "luaL_checkinteger args narg =
     (case arg args narg of
        Some (LNumber n) \<Rightarrow> Return n
      | Some (LNumeral s n) \<Rightarrow> Return n
      | _ \<Rightarrow> Raise (luaL_typerror args narg ''number''))"

text \<open>\<^verbatim>\<open>luaL_checkstring\<close>: a string, or a number converted to one, else a parameter error.
  The conversion of a number to a string (\<^verbatim>\<open>sprintf\<close> in the Lua core) is taken as the
  parameter \<open>number2str\<close>.\<close>

definition luaL_checkstring ::
  "(lua_Integer \<Rightarrow> string) \<Rightarrow> lua_value list \<Rightarrow> nat \<Rightarrow> string result" where
  "luaL_checkstring number2str args narg =
     (case arg args narg of
        Some (LString s) \<Rightarrow> Return s
      | Some (LNumeral s n) \<Rightarrow> Return s
      | Some (LNumber n) \<Rightarrow> Return (number2str n)
      | _ \<Rightarrow> Raise (luaL_typerror args narg ''string''))"

text \<open>\<^verbatim>\<open>luaL_optstring\<close>: the default when the argument is absent or nil.\<close>

definition luaL_optstring ::
  "(lua_Integer \<Rightarrow> string) \<Rightarrow> lua_value list \<Rightarrow> nat \<Rightarrow> string \<Rightarrow> string result" where
  "luaL_optstring number2str args narg def =
     (case arg args narg of
        None \<Rightarrow> Return def
      | Some LNil \<Rightarrow> Return def
      | _ \<Rightarrow> luaL_checkstring number2str args narg)"

text \<open>The loop of \<^verbatim>\<open>luaL_checkoption\<close> over the NULL-terminated option array.\<close>

fun find_option :: "string \<Rightarrow> string list \<Rightarrow> nat \<Rightarrow> nat option" where
  "find_option name [] i = None"
| "find_option name (x # lst) i = (if x = name then Some i else find_option name lst (Suc i))"

text \<open>
  \<^verbatim>\<open>luaL_checkoption(L, narg, def, lst)\<close>: the index of the argument (or of the default) in
  \<open>lst\<close>; a parameter error \<^verbatim>\<open>invalid option '...'\<close> when it is not there.
\<close>

definition luaL_checkoption ::
  "(lua_Integer \<Rightarrow> string) \<Rightarrow> lua_value list \<Rightarrow> nat \<Rightarrow> string \<Rightarrow> string list \<Rightarrow> nat result" where
  "luaL_checkoption number2str args narg def lst =
     (case luaL_optstring number2str args narg def of
        Return name \<Rightarrow>
          (case find_option name lst 0 of
             Some i \<Rightarrow> Return i
           | None \<Rightarrow>
               Raise (Arg_error narg (''invalid option '' @ [CHR 0x27] @ name @ [CHR 0x27])))
      | Raise e \<Rightarrow> Raise e
      | Uninitialised_deref \<Rightarrow> Uninitialised_deref)"

subsection \<open>The socket object and the native layer\<close>

text \<open>
  The buffers of \<^verbatim>\<open>lua_apr.h\<close>: each remembers the transport it was bound to by
  \<^verbatim>\<open>init_buffers\<close> and the bytes it holds.
\<close>

record lua_apr_readbuf =
  rb_object :: "nat option"
  rb_data :: string

record lua_apr_writebuf =
  wb_object :: "nat option"
  wb_data :: string

text \<open>
  \<^verbatim>\<open>typedef struct { ... } lua_apr_socket\<close> (its fields \<^verbatim>\<open>input\<close> and \<^verbatim>\<open>output\<close> are
  \<open>input_buffer\<close> and \<open>output_buffer\<close> here). A pointer is \<open>None\<close> when \<^verbatim>\<open>NULL\<close>, else the
  index of the pool or of the native socket in the native layer.
\<close>

record lua_apr_socket =
  input_buffer :: lua_apr_readbuf
  output_buffer :: lua_apr_writebuf
  pool :: "nat option"
  handle :: "nat option"
  family :: int
  protocol :: int

record apr_sockaddr_t =
  sa_hostname :: "string option"
  sa_family :: int
  sa_port :: apr_port_t

text \<open>What the model keeps of APR's \<^verbatim>\<open>apr_socket_t\<close>. \<open>listen_queue\<close> is the size of the
  listen queue once the socket listens.\<close>

record apr_socket_t =
  socketdes :: bool
  timeout :: apr_interval_time_t
  local_addr :: "apr_sockaddr_t option"
  remote_addr :: "apr_sockaddr_t option"
  sent :: string
  listen_queue :: "int option"

datatype apr_interface_e = APR_LOCAL | APR_REMOTE

text \<open>Every call into APR is logged with its arguments.\<close>

datatype native_call =
    Pool_create
  | Pool_destroy nat
  | Socket_create int int int "nat option"
  | Socket_close "nat option"
  | Sockaddr_info_get string int apr_port_t
  | Sockaddr_ip_get
  | Getnameinfo
  | Socket_connect "nat option"
  | Socket_bind "nat option"
  | Socket_listen "nat option" apr_int32_t
  | Socket_accept "nat option" "nat option"
  | Socket_timeout_get "nat option"
  | Socket_timeout_set "nat option" apr_interval_time_t
  | Socket_addr_get apr_interface_e "nat option"
  | Socket_send "nat option" string

text \<open>
  The native layer: the pools (\<open>True\<close> while alive), the native sockets, the log of calls,
  and \<open>script\<close>, the statuses the environment will answer to the next fallible calls
  (\<^verbatim>\<open>APR_SUCCESS\<close> once the script is used up). APR is an external library: what each call
  does on success follows its documented contract.
\<close>

record apr_state =
  pools :: "bool list"
  sockets :: "apr_socket_t list"
  script :: "apr_status_t list"
  calls :: "native_call list"

text \<open>The Lua side (the socket userdata, by address) and the native side.\<close>

record world =
  heap :: "lua_apr_socket list"
  apr :: apr_state

text \<open>
  What \<^verbatim>\<open>io_net.c\<close> takes from its platform and from the rest of the binding: the APR and
  socket constants, \<^verbatim>\<open>APR_HAVE_IPV6\<close>, \<^verbatim>\<open>apr_strerror\<close>, the resolver, Lua's conversion of
  a number to a string, whether a failing \<^verbatim>\<open>apr_socket_create\<close>/\<^verbatim>\<open>apr_socket_accept\<close> leaves a
  half-built socket in its out-parameter (APR allocates the structure before the system
  call in some versions), and the read side of the buffered I/O engine
  (\<^verbatim>\<open>read_buffer\<close>, \<^verbatim>\<open>read_lines\<close> of the binding's buffer module, which get the Lua
  arguments, the read buffer and the native layer), and \<^verbatim>\<open>to_pool\<close>, the binding's helper
  that hands out the memory pool of a lookup: it is defined outside \<^verbatim>\<open>io_net.c\<close>, works on
  the native layer and may raise.
\<close>

record platform =
  APR_INET :: int
  APR_INET6 :: int
  APR_UNSPEC :: int
  APR_PROTO_TCP :: int
  APR_PROTO_UDP :: int
  SOCK_STREAM :: int
  SOCK_DGRAM :: int
  APR_HAVE_IPV6 :: bool
  APR_ANYADDR :: string
  apr_strerror :: "apr_status_t \<Rightarrow> string"
  resolve_ip :: "string \<Rightarrow> string"
  resolve_name :: "string \<Rightarrow> string"
  number2str :: "lua_Integer \<Rightarrow> string"
  partial_out :: bool
  read_buffer :: "lua_value list \<Rightarrow> lua_apr_readbuf \<Rightarrow> apr_state
                   \<Rightarrow> lua_value list result \<times> lua_apr_readbuf \<times> apr_state"
  read_lines :: "lua_value list \<Rightarrow> lua_apr_readbuf \<Rightarrow> apr_state
                   \<Rightarrow> lua_value list result \<times> lua_apr_readbuf \<times> apr_state"
  to_pool :: "apr_state \<Rightarrow> nat result \<times> apr_state"

abbreviation APR_EBADF :: apr_status_t where
  "APR_EBADF \<equiv> 9"

abbreviation APR_ENOTCONN :: apr_status_t where
  "APR_ENOTCONN \<equiv> 107"

text \<open>A native call: it is logged, and the environment's next answer is its status.\<close>

definition native :: "native_call \<Rightarrow> apr_state \<Rightarrow> apr_status_t \<times> apr_state" where
  "native c N =
     (case script N of
        [] \<Rightarrow> (APR_SUCCESS, N\<lparr>calls := calls N @ [c]\<rparr>)
      | st # rest \<Rightarrow> (st, N\<lparr>calls := calls N @ [c], script := rest\<rparr>))"

text \<open>
  A native call on a socket pointer. A \<^verbatim>\<open>NULL\<close> or dangling pointer is answered
  \<^verbatim>\<open>APR_EBADF\<close>, which keeps the model total.
\<close>

definition valid_socket :: "nat option \<Rightarrow> apr_state \<Rightarrow> bool" where
  "valid_socket h N = (case h of None \<Rightarrow> False | Some k \<Rightarrow> k < length (sockets N))"

definition native_on :: "nat option \<Rightarrow> native_call \<Rightarrow> apr_state \<Rightarrow> apr_status_t \<times> apr_state" where
  "native_on h c N =
     (if valid_socket h N then native c N else (APR_EBADF, N\<lparr>calls := calls N @ [c]\<rparr>))"

definition upd_socket :: "nat option \<Rightarrow> (apr_socket_t \<Rightarrow> apr_socket_t) \<Rightarrow> apr_state \<Rightarrow> apr_state" where
  "upd_socket h f N =
     (case h of
        None \<Rightarrow> N
      | Some k \<Rightarrow> N\<lparr>sockets := (sockets N)[k := f (sockets N ! k)]\<rparr>)"

definition apr_pool_create :: "apr_state \<Rightarrow> apr_status_t \<times> nat option \<times> apr_state" where
  "apr_pool_create N =
     (case native Pool_create N of
        (st, N1) \<Rightarrow>
          if st = APR_SUCCESS
          then (st, Some (length (pools N1)), N1\<lparr>pools := pools N1 @ [True]\<rparr>)
          else (st, None, N1))"

definition apr_pool_destroy :: "nat \<Rightarrow> apr_state \<Rightarrow> apr_state" where
  "apr_pool_destroy pl N = N\<lparr>calls := calls N @ [Pool_destroy pl], pools := (pools N)[pl := False]\<rparr>"

definition fresh_socket :: "bool \<Rightarrow> apr_socket_t" where
  "fresh_socket des =
     \<lparr>socketdes = des, timeout = - 1, local_addr = None, remote_addr = None, sent = [],
      listen_queue = None\<rparr>"

text \<open>
  The out-parameter of \<^verbatim>\<open>apr_socket_create\<close> and \<^verbatim>\<open>apr_socket_accept\<close>: a new open socket
  on success; on failure a half-built one when \<open>partial\<close>, else the old value \<open>old\<close>.
\<close>

definition new_socket ::
  "bool \<Rightarrow> nat option \<Rightarrow> apr_status_t \<times> apr_state \<Rightarrow> apr_status_t \<times> nat option \<times> apr_state" where
  "new_socket partial old r =
     (case r of
        (st, N1) \<Rightarrow>
          if st = APR_SUCCESS
          then (st, Some (length (sockets N1)), N1\<lparr>sockets := sockets N1 @ [fresh_socket True]\<rparr>)
          else if partial
          then (st, Some (length (sockets N1)), N1\<lparr>sockets := sockets N1 @ [fresh_socket False]\<rparr>)
          else (st, old, N1))"

definition apr_socket_create ::
  "bool \<Rightarrow> nat option \<Rightarrow> int \<Rightarrow> int \<Rightarrow> int \<Rightarrow> nat option \<Rightarrow> apr_state
     \<Rightarrow> apr_status_t \<times> nat option \<times> apr_state" where
  "apr_socket_create partial old fam ty proto pl N =
     new_socket partial old (native (Socket_create fam ty proto pl) N)"

definition apr_socket_accept ::
  "bool \<Rightarrow> nat option \<Rightarrow> nat option \<Rightarrow> nat option \<Rightarrow> apr_state
     \<Rightarrow> apr_status_t \<times> nat option \<times> apr_state" where
  "apr_socket_accept partial old srv pl N =
     new_socket partial old (native_on srv (Socket_accept srv pl) N)"

definition apr_socket_close :: "nat option \<Rightarrow> apr_state \<Rightarrow> apr_status_t \<times> apr_state" where
  "apr_socket_close h N =
     (case native_on h (Socket_close h) N of
        (st, N1) \<Rightarrow> (st, upd_socket h (\<lambda>s. s\<lparr>socketdes := False\<rparr>) N1))"

definition apr_sockaddr_info_get ::
  "string \<Rightarrow> int \<Rightarrow> apr_port_t \<Rightarrow> apr_state \<Rightarrow> apr_status_t \<times> apr_sockaddr_t \<times> apr_state" where
  "apr_sockaddr_info_get host fam port N =
     (case native (Sockaddr_info_get host fam port) N of
        (st, N1) \<Rightarrow> (st, \<lparr>sa_hostname = Some host, sa_family = fam, sa_port = port\<rparr>, N1))"

definition apr_socket_connect ::
  "nat option \<Rightarrow> apr_sockaddr_t \<Rightarrow> apr_state \<Rightarrow> apr_status_t \<times> apr_state" where
  "apr_socket_connect h sa N =
     (case native_on h (Socket_connect h) N of
        (st, N1) \<Rightarrow>
          if st = APR_SUCCESS then (st, upd_socket h (\<lambda>s. s\<lparr>remote_addr := Some sa\<rparr>) N1)
          else (st, N1))"

definition apr_socket_bind ::
  "nat option \<Rightarrow> apr_sockaddr_t \<Rightarrow> apr_state \<Rightarrow> apr_status_t \<times> apr_state" where
  "apr_socket_bind h sa N =
     (case native_on h (Socket_bind h) N of
        (st, N1) \<Rightarrow>
          if st = APR_SUCCESS then (st, upd_socket h (\<lambda>s. s\<lparr>local_addr := Some sa\<rparr>) N1)
          else (st, N1))"

text \<open>
  \<^verbatim>\<open>apr_socket_listen\<close>, as the comment above \<^verbatim>\<open>socket_listen\<close> in \<^verbatim>\<open>io_net.c\<close> and APR's
  documentation describe it: the backlog is the number of outstanding connections allowed
  in the listen queue, and if it is less than zero the listen queue size is set to zero.
\<close>

definition apr_socket_listen ::
  "nat option \<Rightarrow> apr_int32_t \<Rightarrow> apr_state \<Rightarrow> apr_status_t \<times> apr_state" where
  "apr_socket_listen h backlog N =
     (case native_on h (Socket_listen h backlog) N of
        (st, N1) \<Rightarrow>
          if st = APR_SUCCESS
          then (st, upd_socket h
                      (\<lambda>s. s\<lparr>listen_queue := Some (if sint backlog < 0 then 0 else sint backlog)\<rparr>) N1)
          else (st, N1))"

text \<open>\<^verbatim>\<open>apr_socket_timeout_set\<close> stores the value, \<^verbatim>\<open>apr_socket_timeout_get\<close> reads it back
  (the caller reads the out-parameter on success only).\<close>

definition apr_socket_timeout_set ::
  "nat option \<Rightarrow> apr_interval_time_t \<Rightarrow> apr_state \<Rightarrow> apr_status_t \<times> apr_state" where
  "apr_socket_timeout_set h t N =
     (case native_on h (Socket_timeout_set h t) N of
        (st, N1) \<Rightarrow>
          if st = APR_SUCCESS then (st, upd_socket h (\<lambda>s. s\<lparr>timeout := t\<rparr>) N1)
          else (st, N1))"

definition apr_socket_timeout_get ::
  "nat option \<Rightarrow> apr_state \<Rightarrow> apr_status_t \<times> apr_interval_time_t \<times> apr_state" where
  "apr_socket_timeout_get h N =
     (case native_on h (Socket_timeout_get h) N of
        (st, N1) \<Rightarrow>
          (case h of
             Some k \<Rightarrow> if st = APR_SUCCESS then (st, timeout (sockets N1 ! k), N1) else (st, 0, N1)
           | None \<Rightarrow> (st, 0, N1)))"

definition no_sockaddr :: apr_sockaddr_t where
  "no_sockaddr = \<lparr>sa_hostname = None, sa_family = 0, sa_port = 0\<rparr>"

text \<open>The address of an unbound or unconnected socket is not available
  (\<^verbatim>\<open>APR_ENOTCONN\<close>); the caller reads the out-parameter on success only.\<close>

definition apr_socket_addr_get ::
  "apr_interface_e \<Rightarrow> nat option \<Rightarrow> apr_state \<Rightarrow> apr_status_t \<times> apr_sockaddr_t \<times> apr_state" where
  "apr_socket_addr_get which h N =
     (case native_on h (Socket_addr_get which h) N of
        (st, N1) \<Rightarrow>
          (case h of
             Some k \<Rightarrow>
               if st = APR_SUCCESS
               then (case (case which of APR_LOCAL \<Rightarrow> local_addr (sockets N1 ! k)
                                       | APR_REMOTE \<Rightarrow> remote_addr (sockets N1 ! k)) of
                       Some sa \<Rightarrow> (st, sa, N1)
                     | None \<Rightarrow> (APR_ENOTCONN, no_sockaddr, N1))
               else (st, no_sockaddr, N1)
           | None \<Rightarrow> (st, no_sockaddr, N1)))"

definition apr_sockaddr_ip_get ::
  "(string \<Rightarrow> string) \<Rightarrow> apr_sockaddr_t \<Rightarrow> apr_state \<Rightarrow> apr_status_t \<times> string \<times> apr_state" where
  "apr_sockaddr_ip_get resolve sa N =
     (case native Sockaddr_ip_get N of
        (st, N1) \<Rightarrow> (st, resolve (case sa_hostname sa of Some h \<Rightarrow> h | None \<Rightarrow> []), N1))"

definition apr_getnameinfo ::
  "(string \<Rightarrow> string) \<Rightarrow> apr_sockaddr_t \<Rightarrow> apr_state \<Rightarrow> apr_status_t \<times> string \<times> apr_state" where
  "apr_getnameinfo reverse sa N =
     (case native Getnameinfo N of
        (st, N1) \<Rightarrow> (st, reverse (case sa_hostname sa of Some h \<Rightarrow> h | None \<Rightarrow> []), N1))"

definition apr_socket_send ::
  "nat option \<Rightarrow> string \<Rightarrow> apr_state \<Rightarrow> apr_status_t \<times> apr_state" where
  "apr_socket_send h bytes N =
     (case native_on h (Socket_send h bytes) N of
        (st, N1) \<Rightarrow>
          if st = APR_SUCCESS then (st, upd_socket h (\<lambda>s. s\<lparr>sent := sent s @ bytes\<rparr>) N1)
          else (st, N1))"

subsection \<open>Helpers of the binding that io\_net.c calls\<close>

text \<open>
  \<^verbatim>\<open>new_object\<close>, \<^verbatim>\<open>check_object\<close>, \<^verbatim>\<open>push_status\<close>, \<^verbatim>\<open>push_error_status\<close>,
  \<^verbatim>\<open>init_buffers\<close>, \<^verbatim>\<open>write_buffer\<close> and \<^verbatim>\<open>flush_buffer\<close> are declared in \<^verbatim>\<open>lua_apr.h\<close>
  and defined outside \<^verbatim>\<open>io_net.c\<close>.
\<close>

text \<open>Modelled from the spec: \<^verbatim>\<open>init_buffers\<close> is missing. Buffered channel state is bound
  one to one to the handle's native descriptor at initialisation; the buffers start empty.\<close>

definition init_buffers :: "nat option \<Rightarrow> lua_apr_readbuf \<times> lua_apr_writebuf" where
  "init_buffers object = (\<lparr>rb_object = object, rb_data = []\<rparr>, \<lparr>wb_object = object, wb_data = []\<rparr>)"

text \<open>Modelled from the spec: \<^verbatim>\<open>new_object\<close> is missing (the host's object registration).
  The new userdata of the socket type is zero-filled: descriptor and arena are null until
  they are created.\<close>

definition new_object :: lua_apr_socket where
  "new_object =
     \<lparr>input_buffer = \<lparr>rb_object = None, rb_data = []\<rparr>,
      output_buffer = \<lparr>wb_object = None, wb_data = []\<rparr>,
      pool = None, handle = None, family = 0, protocol = 0\<rparr>"

text \<open>Modelled from the spec: \<^verbatim>\<open>check_object\<close> is missing (the host's type tagging). The
  argument must be a userdata of the socket type; anything else is a parameter error.\<close>

definition check_object :: "lua_value list \<Rightarrow> nat \<Rightarrow> world \<Rightarrow> nat result" where
  "check_object args i w =
     (case arg args i of
        Some (LUserdata a) \<Rightarrow>
          if a < length (heap w) then Return a
          else Raise (luaL_typerror args i ''lua_apr_socket*'')
      | _ \<Rightarrow> Raise (luaL_typerror args i ''lua_apr_socket*''))"

text \<open>Modelled from the spec: \<^verbatim>\<open>push_error_status\<close> is missing. A failure is \<^verbatim>\<open>nil\<close> plus a
  human-readable message derived from the platform status code.\<close>

definition push_error_status :: "platform \<Rightarrow> apr_status_t \<Rightarrow> lua_value list" where
  "push_error_status p status = [LNil, LString (apr_strerror p status)]"

text \<open>Modelled from the spec: \<^verbatim>\<open>push_status\<close> is missing. A result is \<^verbatim>\<open>true\<close> on success,
  else the two-part failure.\<close>

definition push_status :: "platform \<Rightarrow> apr_status_t \<Rightarrow> lua_value list" where
  "push_status p status =
     (if status = APR_SUCCESS then [LBoolean True] else push_error_status p status)"

text \<open>Modelled from the spec: \<^verbatim>\<open>write_buffer\<close> is missing. It follows Lua's \<^verbatim>\<open>file:write\<close>:
  the arguments 2, 3, ... must be strings or numbers and are appended to the output buffer
  (\<open>write_values\<close> is its loop over the arguments \<open>i\<close>, \<open>i + 1\<close>, ..., \<open>k\<close> of them); the
  result is a status.\<close>

fun write_values ::
  "(lua_Integer \<Rightarrow> string) \<Rightarrow> lua_value list \<Rightarrow> nat \<Rightarrow> nat \<Rightarrow> lua_apr_writebuf
     \<Rightarrow> unit result \<times> lua_apr_writebuf" where
  "write_values n2s args i 0 ob = (Return (), ob)"
| "write_values n2s args i (Suc k) ob =
     (case luaL_checkstring n2s args i of
        Return s \<Rightarrow> write_values n2s args (Suc i) k (ob\<lparr>wb_data := wb_data ob @ s\<rparr>)
      | Raise e \<Rightarrow> (Raise e, ob)
      | Uninitialised_deref \<Rightarrow> (Uninitialised_deref, ob))"

definition write_buffer ::
  "platform \<Rightarrow> lua_value list \<Rightarrow> lua_apr_writebuf \<Rightarrow> lua_value list result \<times> lua_apr_writebuf" where
  "write_buffer p args ob =
     (case write_values (number2str p) args 2 (length args - 1) ob of
        (Return u, ob1) \<Rightarrow> (Return (push_status p APR_SUCCESS), ob1)
      | (Raise e, ob1) \<Rightarrow> (Raise e, ob1)
      | (Uninitialised_deref, ob1) \<Rightarrow> (Uninitialised_deref, ob1))"

text \<open>Modelled from the spec: \<^verbatim>\<open>flush_buffer\<close> is missing. A flush hands the buffered bytes
  to the native send function of the transport and returns its status; the buffer is
  emptied when the send succeeded.\<close>

definition flush_buffer ::
  "lua_apr_writebuf \<Rightarrow> apr_state \<Rightarrow> apr_status_t \<times> lua_apr_writebuf \<times> apr_state" where
  "flush_buffer ob N =
     (if wb_data ob = [] then (APR_SUCCESS, ob, N)
      else (case apr_socket_send (wb_object ob) (wb_data ob) N of
              (st, N1) \<Rightarrow>
                if st = APR_SUCCESS then (st, ob\<lparr>wb_data := []\<rparr>, N1) else (st, ob, N1)))"

subsection \<open>Internal functions of io\_net.c\<close>

text \<open>An update through an object pointer.\<close>

definition upd_obj :: "nat \<Rightarrow> (lua_apr_socket \<Rightarrow> lua_apr_socket) \<Rightarrow> world \<Rightarrow> world" where
  "upd_obj a f w = w\<lparr>heap := (heap w)[a := f (heap w ! a)]\<rparr>"

text \<open>A Lua error or an invalid dereference ends the C function where it happens.\<close>

definition on_return :: "'a result \<Rightarrow> world \<Rightarrow> ('a \<Rightarrow> 'b result \<times> world) \<Rightarrow> 'b result \<times> world" where
  "on_return r w f =
     (case r of
        Return x \<Rightarrow> f x
      | Raise e \<Rightarrow> (Raise e, w)
      | Uninitialised_deref \<Rightarrow> (Uninitialised_deref, w))"

text \<open>
  \<^verbatim>\<open>socket_alloc\<close>: the new userdata (at the next address, left on the Lua stack) gets
  family and protocol, then its pool. \<^verbatim>\<open>*objptr\<close> is written on success only: \<open>None\<close> is a
  pointer left unassigned.
\<close>

definition socket_alloc :: "int \<Rightarrow> int \<Rightarrow> world \<Rightarrow> apr_status_t \<times> nat option \<times> world" where
  "socket_alloc fam proto w =
     (let object = length (heap w);
          w1 = w\<lparr>heap := heap w @ [new_object\<lparr>family := fam, protocol := proto\<rparr>]\<rparr>
      in case apr_pool_create (apr w1) of
           (status, pl, N) \<Rightarrow>
             (status,
              if status = APR_SUCCESS then Some object else None,
              upd_obj object (\<lambda>obj. obj\<lparr>pool := pl\<rparr>) (w1\<lparr>apr := N\<rparr>)))"

definition socket_init :: "nat \<Rightarrow> world \<Rightarrow> world" where
  "socket_init object w =
     upd_obj object
       (\<lambda>obj. case init_buffers (handle obj) of
                 (ib, ob) \<Rightarrow> obj\<lparr>input_buffer := ib, output_buffer := ob\<rparr>) w"

definition socket_check :: "lua_value list \<Rightarrow> nat \<Rightarrow> bool \<Rightarrow> world \<Rightarrow> nat result" where
  "socket_check args i opn w =
     (case check_object args i w of
        Return object \<Rightarrow>
          if opn \<and> handle (heap w ! object) = None
          then Raise (Error_msg ''attempt to use a closed socket'')
          else Return object
      | Raise e \<Rightarrow> Raise e
      | Uninitialised_deref \<Rightarrow> Uninitialised_deref)"

definition family_options :: "platform \<Rightarrow> string list" where
  "family_options p =
     (if APR_HAVE_IPV6 p then [''inet'', ''inet6'', ''unspec''] else [''inet'', ''unspec''])"

definition family_values :: "platform \<Rightarrow> int list" where
  "family_values p =
     (if APR_HAVE_IPV6 p then [APR_INET p, APR_INET6 p, APR_UNSPEC p]
      else [APR_INET p, APR_UNSPEC p])"

definition family_check :: "platform \<Rightarrow> lua_value list \<Rightarrow> nat \<Rightarrow> int result" where
  "family_check p args i =
     (case luaL_checkoption (number2str p) args i ''inet'' (family_options p) of
        Return k \<Rightarrow> Return (family_values p ! k)
      | Raise e \<Rightarrow> Raise e
      | Uninitialised_deref \<Rightarrow> Uninitialised_deref)"

definition socket_close_impl :: "nat \<Rightarrow> world \<Rightarrow> apr_status_t \<times> world" where
  "socket_close_impl object w =
     (case (case handle (heap w ! object) of
              Some h \<Rightarrow>
                (case apr_socket_close (Some h) (apr w) of
                   (st, N) \<Rightarrow> (st, upd_obj object (\<lambda>obj. obj\<lparr>handle := None\<rparr>) (w\<lparr>apr := N\<rparr>)))
            | None \<Rightarrow> (APR_SUCCESS, w)) of
        (status, w1) \<Rightarrow>
          (case pool (heap w1 ! object) of
             Some pl \<Rightarrow>
               (status,
                upd_obj object (\<lambda>obj. obj\<lparr>pool := None\<rparr>) (w1\<lparr>apr := apr_pool_destroy pl (apr w1)\<rparr>))
           | None \<Rightarrow> (status, w1)))"

subsection \<open>The Lua functions of io\_net.c\<close>

text \<open>
  Each function takes the Lua arguments (stack index 1 first) and returns the values it
  hands back to Lua. Where the C writes \<^verbatim>\<open>return 1\<close> after \<^verbatim>\<open>socket_alloc\<close>, the value
  returned is the userdata that \<^verbatim>\<open>new_object\<close> left on the stack.
\<close>

definition lua_apr_socket_create :: "platform \<Rightarrow> lua_value list \<Rightarrow> world \<Rightarrow> lua_value list result \<times> world" where
  "lua_apr_socket_create p args w =
     on_return (luaL_checkoption (number2str p) args 1 ''tcp'' [''tcp'', ''udp'']) w (\<lambda>k.
     on_return (family_check p args 2) w (\<lambda>fam.
       let proto = [APR_PROTO_TCP p, APR_PROTO_UDP p] ! k;
           ty = (if proto = APR_PROTO_TCP p then SOCK_STREAM p else SOCK_DGRAM p)
       in case socket_alloc fam proto w of
            (status, objptr, w1) \<Rightarrow>
              if status = APR_SUCCESS
              then (case objptr of
                      None \<Rightarrow> (Uninitialised_deref, w1)
                    | Some object \<Rightarrow>
                        (case apr_socket_create (partial_out p) (handle (heap w1 ! object))
                                fam ty proto (pool (heap w1 ! object)) (apr w1) of
                           (status2, h, N) \<Rightarrow>
                             (let w2 = upd_obj object (\<lambda>obj. obj\<lparr>handle := h\<rparr>) (w1\<lparr>apr := N\<rparr>)
                              in if status2 \<noteq> APR_SUCCESS
                                 then (Return (push_error_status p status2), w2)
                                 else (Return [LUserdata object], socket_init object w2))))
              else (Return (push_error_status p status), w1)))"

text \<open>\<^verbatim>\<open>lua_apr_host_to_addr\<close> and \<^verbatim>\<open>lua_apr_addr_to_host\<close> call \<^verbatim>\<open>to_pool(L)\<close> before they
  read an argument, and pass \<^verbatim>\<open>SOCK_STREAM\<close> where \<^verbatim>\<open>apr_sockaddr_info_get\<close> takes the
  port.\<close>

definition lua_apr_host_to_addr :: "platform \<Rightarrow> lua_value list \<Rightarrow> world \<Rightarrow> lua_value list result \<times> world" where
  "lua_apr_host_to_addr p args w =
     (case to_pool p (apr w) of
        (r, N0) \<Rightarrow>
          (let w0 = w\<lparr>apr := N0\<rparr>
           in on_return r w0 (\<lambda>pool.
              on_return (luaL_checkstring (number2str p) args 1) w0 (\<lambda>host.
              on_return (family_check p args 2) w0 (\<lambda>fam.
                case apr_sockaddr_info_get host fam (word_of_int (SOCK_STREAM p)) N0 of
                  (status, address, N1) \<Rightarrow>
                    (case (if status = APR_SUCCESS
                           then apr_sockaddr_ip_get (resolve_ip p) address N1
                           else (status, [], N1)) of
                       (status2, ip_address, N2) \<Rightarrow>
                         if status2 \<noteq> APR_SUCCESS
                         then (Return (push_error_status p status2), w\<lparr>apr := N2\<rparr>)
                         else (Return [LString ip_address], w\<lparr>apr := N2\<rparr>)))))))"

definition lua_apr_addr_to_host :: "platform \<Rightarrow> lua_value list \<Rightarrow> world \<Rightarrow> lua_value list result \<times> world" where
  "lua_apr_addr_to_host p args w =
     (case to_pool p (apr w) of
        (r, N0) \<Rightarrow>
          (let w0 = w\<lparr>apr := N0\<rparr>
           in on_return r w0 (\<lambda>pool.
              on_return (luaL_checkstring (number2str p) args 1) w0 (\<lambda>ip_address.
              on_return (family_check p args 2) w0 (\<lambda>fam.
                case apr_sockaddr_info_get ip_address fam (word_of_int (SOCK_STREAM p)) N0 of
                  (status, address, N1) \<Rightarrow>
                    (case (if status = APR_SUCCESS
                           then apr_getnameinfo (resolve_name p) address N1
                           else (status, [], N1)) of
                       (status2, host, N2) \<Rightarrow>
                         if status2 \<noteq> APR_SUCCESS
                         then (Return (push_error_status p status2), w\<lparr>apr := N2\<rparr>)
                         else (Return [LString host], w\<lparr>apr := N2\<rparr>)))))))"

definition socket_connect :: "platform \<Rightarrow> lua_value list \<Rightarrow> world \<Rightarrow> lua_value list result \<times> world" where
  "socket_connect p args w =
     on_return (socket_check args 1 True w) w (\<lambda>object.
     on_return (luaL_checkstring (number2str p) args 2) w (\<lambda>host.
     on_return (luaL_checkinteger args 3) w (\<lambda>n.
       let port = (ucast n :: apr_port_t)
       in case apr_sockaddr_info_get host (family (heap w ! object)) port (apr w) of
            (status, address, N1) \<Rightarrow>
              (case (if status = APR_SUCCESS
                     then apr_socket_connect (handle (heap w ! object)) address N1
                     else (status, N1)) of
                 (status2, N2) \<Rightarrow> (Return (push_status p status2), w\<lparr>apr := N2\<rparr>)))))"

definition socket_bind :: "platform \<Rightarrow> lua_value list \<Rightarrow> world \<Rightarrow> lua_value list result \<times> world" where
  "socket_bind p args w =
     on_return (socket_check args 1 True w) w (\<lambda>object.
     on_return (luaL_checkstring (number2str p) args 2) w (\<lambda>host0.
       let host = (if host0 = ''*'' then APR_ANYADDR p else host0)
       in on_return (luaL_checkinteger args 3) w (\<lambda>n.
            let port = (ucast n :: apr_port_t)
            in case apr_sockaddr_info_get host (family (heap w ! object)) port (apr w) of
                 (status, address, N1) \<Rightarrow>
                   (case (if status = APR_SUCCESS
                          then apr_socket_bind (handle (heap w ! object)) address N1
                          else (status, N1)) of
                      (status2, N2) \<Rightarrow> (Return (push_status p status2), w\<lparr>apr := N2\<rparr>)))))"

definition socket_listen :: "platform \<Rightarrow> lua_value list \<Rightarrow> world \<Rightarrow> lua_value list result \<times> world" where
  "socket_listen p args w =
     on_return (socket_check args 1 True w) w (\<lambda>object.
     on_return (luaL_checkinteger args 2) w (\<lambda>n.
       let backlog = (scast n :: apr_int32_t)
       in case apr_socket_listen (handle (heap w ! object)) backlog (apr w) of
            (status, N) \<Rightarrow> (Return (push_status p status), w\<lparr>apr := N\<rparr>)))"

text \<open>
  \<^verbatim>\<open>socket_accept\<close>: \<^verbatim>\<open>client\<close> is a local pointer that only a successful \<^verbatim>\<open>socket_alloc\<close>
  assigns, and \<^verbatim>\<open>socket_init(L, client)\<close> runs before the status is looked at.
\<close>

definition socket_accept :: "platform \<Rightarrow> lua_value list \<Rightarrow> world \<Rightarrow> lua_value list result \<times> world" where
  "socket_accept p args w =
     on_return (socket_check args 1 True w) w (\<lambda>server.
       case socket_alloc (family (heap w ! server)) (protocol (heap w ! server)) w of
         (status, clientptr, w1) \<Rightarrow>
           (case clientptr of
              None \<Rightarrow> (Uninitialised_deref, w1)
            | Some client \<Rightarrow>
                (case (if status = APR_SUCCESS
                       then (case apr_socket_accept (partial_out p) (handle (heap w1 ! client))
                                    (handle (heap w1 ! server)) (pool (heap w1 ! client)) (apr w1) of
                               (st, h, N) \<Rightarrow>
                                 (st, upd_obj client (\<lambda>obj. obj\<lparr>handle := h\<rparr>) (w1\<lparr>apr := N\<rparr>)))
                       else (status, w1)) of
                   (status2, w2) \<Rightarrow>
                     (let w3 = socket_init client w2
                      in if status2 \<noteq> APR_SUCCESS
                         then (Return (push_error_status p status2), w3)
                         else (Return [LUserdata client], w3)))))"

definition socket_read :: "platform \<Rightarrow> lua_value list \<Rightarrow> world \<Rightarrow> lua_value list result \<times> world" where
  "socket_read p args w =
     on_return (socket_check args 1 True w) w (\<lambda>object.
       case read_buffer p args (input_buffer (heap w ! object)) (apr w) of
         (r, ib, N) \<Rightarrow> (r, upd_obj object (\<lambda>obj. obj\<lparr>input_buffer := ib\<rparr>) (w\<lparr>apr := N\<rparr>)))"

definition socket_write :: "platform \<Rightarrow> lua_value list \<Rightarrow> world \<Rightarrow> lua_value list result \<times> world" where
  "socket_write p args w =
     on_return (socket_check args 1 True w) w (\<lambda>object.
       case write_buffer p args (output_buffer (heap w ! object)) of
         (r, ob1) \<Rightarrow>
           (let w1 = upd_obj object (\<lambda>obj. obj\<lparr>output_buffer := ob1\<rparr>) w
            in on_return r w1 (\<lambda>nresults.
                 case flush_buffer ob1 (apr w1) of
                   (status, ob2, N) \<Rightarrow>
                     (let w2 = upd_obj object (\<lambda>obj. obj\<lparr>output_buffer := ob2\<rparr>) (w1\<lparr>apr := N\<rparr>)
                      in if status \<noteq> APR_SUCCESS
                         then (Return (push_error_status p status), w2)
                         else (Return nresults, w2)))))"

definition socket_lines :: "platform \<Rightarrow> lua_value list \<Rightarrow> world \<Rightarrow> lua_value list result \<times> world" where
  "socket_lines p args w =
     on_return (socket_check args 1 True w) w (\<lambda>object.
       case read_lines p args (input_buffer (heap w ! object)) (apr w) of
         (r, ib, N) \<Rightarrow> (r, upd_obj object (\<lambda>obj. obj\<lparr>input_buffer := ib\<rparr>) (w\<lparr>apr := N\<rparr>)))"

definition socket_timeout_get :: "platform \<Rightarrow> lua_value list \<Rightarrow> world \<Rightarrow> lua_value list result \<times> world" where
  "socket_timeout_get p args w =
     on_return (socket_check args 1 True w) w (\<lambda>object.
       case apr_socket_timeout_get (handle (heap w ! object)) (apr w) of
         (status, t, N) \<Rightarrow>
           (Return (if status \<noteq> APR_SUCCESS then push_error_status p status
                    else if sint t \<le> 0 then [LBoolean (t \<noteq> 0)]
                    else [LNumber t]),
            w\<lparr>apr := N\<rparr>))"

definition socket_timeout_set :: "platform \<Rightarrow> lua_value list \<Rightarrow> world \<Rightarrow> lua_value list result \<times> world" where
  "socket_timeout_set p args w =
     on_return (socket_check args 1 True w) w (\<lambda>object.
     on_return (if lua_isnumber (arg args 2)
                then luaL_checkinteger args 2
                else Return (if lua_toboolean (arg args 2) then - 1 else 0)) w (\<lambda>t.
       case apr_socket_timeout_set (handle (heap w ! object)) t (apr w) of
         (status, N) \<Rightarrow> (Return (push_status p status), w\<lparr>apr := N\<rparr>)))"

definition socket_addr_get :: "platform \<Rightarrow> lua_value list \<Rightarrow> world \<Rightarrow> lua_value list result \<times> world" where
  "socket_addr_get p args w =
     on_return (socket_check args 1 True w) w (\<lambda>object.
     on_return (luaL_checkoption (number2str p) args 2 ''remote'' [''local'', ''remote'']) w (\<lambda>k.
       let which = [APR_LOCAL, APR_REMOTE] ! k
       in case apr_socket_addr_get which (handle (heap w ! object)) (apr w) of
            (status, address, N1) \<Rightarrow>
              (case (if status = APR_SUCCESS then apr_sockaddr_ip_get (resolve_ip p) address N1
                     else (status, [], N1)) of
                 (status2, ip_address, N2) \<Rightarrow>
                   if status2 \<noteq> APR_SUCCESS
                   then (Return (push_error_status p status2), w\<lparr>apr := N2\<rparr>)
                   else (Return [LString ip_address,
                                 (case sa_hostname address of Some h \<Rightarrow> LString h | None \<Rightarrow> LNil)],
                         w\<lparr>apr := N2\<rparr>))))"

definition socket_close :: "platform \<Rightarrow> lua_value list \<Rightarrow> world \<Rightarrow> lua_value list result \<times> world" where
  "socket_close p args w =
     on_return (socket_check args 1 True w) w (\<lambda>object.
       case socket_close_impl object w of
         (status, w1) \<Rightarrow> (Return (push_status p status), w1))"

definition socket_tostring :: "platform \<Rightarrow> lua_value list \<Rightarrow> world \<Rightarrow> lua_value list result \<times> world" where
  "socket_tostring p args w =
     on_return (socket_check args 1 False w) w (\<lambda>object.
       (Return [LString ((if handle (heap w ! object) \<noteq> None then ''Open'' else ''Closed'')
                         @ '' Lua/APR socket object'')], w))"

definition socket_gc :: "platform \<Rightarrow> lua_value list \<Rightarrow> world \<Rightarrow> lua_value list result \<times> world" where
  "socket_gc p args w =
     on_return (socket_check args 1 False w) w (\<lambda>object.
       (Return [], snd (socket_close_impl object w)))"

text \<open>The tables \<^verbatim>\<open>socket_methods\<close> and \<^verbatim>\<open>socket_metamethods\<close>.\<close>

datatype socket_method =
    M_bind | M_listen | M_accept | M_connect | M_read | M_write | M_lines
  | M_timeout_get | M_timeout_set | M_addr_get | M_close
  | MM_tostring | MM_gc

fun socket_methods ::
  "socket_method \<Rightarrow> platform \<Rightarrow> lua_value list \<Rightarrow> world \<Rightarrow> lua_value list result \<times> world" where
  "socket_methods M_bind = socket_bind"
| "socket_methods M_listen = socket_listen"
| "socket_methods M_accept = socket_accept"
| "socket_methods M_connect = socket_connect"
| "socket_methods M_read = socket_read"
| "socket_methods M_write = socket_write"
| "socket_methods M_lines = socket_lines"
| "socket_methods M_timeout_get = socket_timeout_get"
| "socket_methods M_timeout_set = socket_timeout_set"
| "socket_methods M_addr_get = socket_addr_get"
| "socket_methods M_close = socket_close"
| "socket_methods MM_tostring = socket_tostring"
| "socket_methods MM_gc = socket_gc"

subsection \<open>A concrete platform for the closed examples\<close>

text \<open>
  Linux constants and the messages of the statuses the examples use. The resolver is the
  one of literal addresses, the read engine the one of a connection at end of stream, and
  \<^verbatim>\<open>to_pool\<close> creates the pool of the lookup.
\<close>

fun show_digits :: "nat \<Rightarrow> nat \<Rightarrow> string" where
  "show_digits 0 n = []"
| "show_digits (Suc fuel) n =
     (if n < 10 then [char_of (48 + n)]
      else show_digits fuel (n div 10) @ [char_of (48 + n mod 10)])"

text \<open>
  Lua converts a number to a string with the format \<^verbatim>\<open>%.14g\<close>: an integer below \<open>10^14\<close>
  is written in decimal; from \<open>10^14\<close> on it is rounded to 14 significant digits (a tie goes
  to the even digit) and written with an exponent, without trailing zeros.
\<close>

definition show_g14 :: "nat \<Rightarrow> string" where
  "show_g14 a =
     (if a < 10 ^ 14 then show_digits 20 a
      else let x = length (show_digits 20 a) - 1;
               q = 10 ^ (x - 13);
               m0 = a div q;
               r = a mod q;
               m1 = (if q < 2 * r \<or> (2 * r = q \<and> odd m0) then m0 + 1 else m0);
               m = (if m1 = 10 ^ 14 then 10 ^ 13 else m1);
               e = (if m1 = 10 ^ 14 then x + 1 else x);
               ds = show_digits 20 m;
               frac = rev (dropWhile (\<lambda>c. c = CHR ''0'') (rev (drop 1 ds)))
           in take 1 ds @ (if frac = [] then [] else ''.'' @ frac) @ ''e+'' @ show_digits 20 e)"

definition decimal_number2str :: "lua_Integer \<Rightarrow> string" where
  "decimal_number2str n =
     (if sint n < 0 then ''-'' @ show_g14 (nat (- sint n)) else show_g14 (nat (sint n)))"

definition linux_strerror :: "apr_status_t \<Rightarrow> string" where
  "linux_strerror st =
     (if st = 9 then ''Bad file descriptor''
      else if st = 12 then ''Cannot allocate memory''
      else if st = 107 then ''Transport endpoint is not connected''
      else if st = 111 then ''Connection refused''
      else ''Unknown error'')"

definition linux :: platform where
  "linux =
     \<lparr>APR_INET = 2, APR_INET6 = 10, APR_UNSPEC = 0,
      APR_PROTO_TCP = 6, APR_PROTO_UDP = 17,
      SOCK_STREAM = 1, SOCK_DGRAM = 2,
      APR_HAVE_IPV6 = True,
      APR_ANYADDR = ''0.0.0.0'',
      apr_strerror = linux_strerror,
      resolve_ip = (\<lambda>h. h),
      resolve_name = (\<lambda>h. h),
      number2str = decimal_number2str,
      partial_out = False,
      read_buffer = (\<lambda>args ib N. (Return [LNil], ib, N)),
      read_lines = (\<lambda>args ib N. (Return [LFunction], ib, N)),
      to_pool = (\<lambda>N. case apr_pool_create N of
                         (st, pl, N1) \<Rightarrow>
                           (case pl of
                              Some k \<Rightarrow> (Return k, N1)
                            | None \<Rightarrow> (Raise (Error_msg (linux_strerror st)), N1)))\<rparr>"

text \<open>The same platform without IPv6.\<close>

definition linux_no_ipv6 :: platform where
  "linux_no_ipv6 = linux\<lparr>APR_HAVE_IPV6 := False\<rparr>"

text \<open>The world before any socket exists, with the answers \<open>answers\<close> still to come.\<close>

definition world0 :: "apr_status_t list \<Rightarrow> world" where
  "world0 answers = \<lparr>heap = [], apr = \<lparr>pools = [], sockets = [], script = answers, calls = []\<rparr>\<rparr>"


text \<open>The world after \<^verbatim>\<open>apr.socket_create()\<close> succeeded on \<open>linux\<close>: one open socket, at
  address 0.\<close>

definition open_world :: world where
  "open_world = snd (lua_apr_socket_create linux [] (world0 []))"

text \<open>That world after \<^verbatim>\<open>socket:close()\<close>, and after \<^verbatim>\<open>socket:accept()\<close>.\<close>

definition closed_world :: world where
  "closed_world = snd (socket_close linux [LUserdata 0] open_world)"

definition accepted_world :: world where
  "accepted_world = snd (socket_accept linux [LUserdata 0] open_world)"

text \<open>The world after a successful create whose next native call will be answered 111
  (\<^verbatim>\<open>ECONNREFUSED\<close>).\<close>

definition failing_world :: world where
  "failing_world = snd (lua_apr_socket_create linux [] (world0 [0, 0, 111]))"

subsection \<open>Notions the properties are stated with\<close>

text \<open>The family and protocol of every socket object, by address.\<close>

definition identities :: "world \<Rightarrow> (int \<times> int) list" where
  "identities w = map (\<lambda>obj. (family obj, protocol obj)) (heap w)"

text \<open>The bytes of the arguments 2, 3, ... of \<^verbatim>\<open>write\<close>, in order.\<close>

definition written_bytes :: "(lua_Integer \<Rightarrow> string) \<Rightarrow> lua_value list \<Rightarrow> string" where
  "written_bytes n2s args =
     concat (map (\<lambda>i. case luaL_checkstring n2s args i of Return s \<Rightarrow> s | _ \<Rightarrow> [])
                 [2 ..< 2 + (length args - 1)])"


text \<open>
  The spec's \<^verbatim>\<open>resolveFamily(token)\<close>: a symbolic family name is mapped to the platform
  constant, \<^verbatim>\<open>inet6\<close> only when the platform has IPv6; any other token is invalid.
\<close>

definition resolveFamily :: "platform \<Rightarrow> string \<Rightarrow> int option" where
  "resolveFamily p token =
     (if token = ''inet'' then Some (APR_INET p)
      else if token = ''inet6'' \<and> APR_HAVE_IPV6 p then Some (APR_INET6 p)
      else if token = ''unspec'' then Some (APR_UNSPEC p)
      else None)"

section \<open>Properties\<close>

subsection \<open>Basic facts\<close>

lemma on_return_simps [simp]:
  "on_return (Return x) w f = f x"
  "on_return (Raise e) w f = (Raise e, w)"
  "on_return Uninitialised_deref w f = (Uninitialised_deref, w)"
  by (simp_all add: on_return_def)

lemma socket_check_closed:
  "arg args i = Some (LUserdata a) \<Longrightarrow> a < length (heap w) \<Longrightarrow> handle (heap w ! a) = None
   \<Longrightarrow> socket_check args i True w = Raise (Error_msg ''attempt to use a closed socket'')"
  by (simp add: socket_check_def check_object_def)

lemma socket_check_object:
  "arg args i = Some (LUserdata a) \<Longrightarrow> a < length (heap w)
   \<Longrightarrow> socket_check args i False w = Return a"
  by (simp add: socket_check_def check_object_def)

lemma socket_check_open:
  "arg args i = Some (LUserdata a) \<Longrightarrow> a < length (heap w) \<Longrightarrow> handle (heap w ! a) = Some h
   \<Longrightarrow> socket_check args i opn w = Return a"
  by (simp add: socket_check_def check_object_def)

lemma socket_check_ReturnD:
  "socket_check args i opn w = Return a \<Longrightarrow>
     arg args i = Some (LUserdata a) \<and> a < length (heap w) \<and> (opn \<longrightarrow> handle (heap w ! a) \<noteq> None)"
  by (auto simp: socket_check_def check_object_def split: option.splits lua_value.splits if_splits result.splits)

lemma open_world_eq: "open_world = 
  \<lparr>heap =
     [\<lparr>input_buffer = \<lparr>rb_object = Some 0, rb_data = []\<rparr>,
         output_buffer = \<lparr>wb_object = Some 0, wb_data = []\<rparr>, pool = Some 0,
         handle = Some 0, family = 2, protocol = 6\<rparr>],
     apr =
       \<lparr>pools = [True],
          sockets =
            [\<lparr>socketdes = True, timeout = - 1,
                local_addr = None, remote_addr = None, sent = [],
                listen_queue = None\<rparr>],
          script = [],
          calls = [Pool_create, Socket_create 2 1 6 (Some 0)]\<rparr>\<rparr>"
  by (simp add: open_world_def lua_apr_socket_create_def world0_def linux_def luaL_checkoption_def
     luaL_optstring_def arg_def family_check_def family_options_def family_values_def
     socket_alloc_def new_object_def apr_pool_create_def native_def upd_obj_def
     apr_socket_create_def new_socket_def fresh_socket_def socket_init_def init_buffers_def)


lemma socket_close_impl_noop:
  "handle (heap w ! a) = None \<Longrightarrow> pool (heap w ! a) = None \<Longrightarrow> socket_close_impl a w = (APR_SUCCESS, w)"
  by (simp add: socket_close_impl_def)

lemma socket_close_impl_closed:
  assumes "a < length (heap w)" and "socket_close_impl a w = (st, w1)"
  shows "length (heap w1) = length (heap w) \<and> handle (heap w1 ! a) = None \<and> pool (heap w1 ! a) = None"
  using assms
  by (auto simp: socket_close_impl_def upd_obj_def split: option.splits prod.splits)

lemma lua_apr_socket_create_success:
  assumes "lua_apr_socket_create p args w = (Return [v], w1)"
  shows "v = LUserdata (length (heap w)) \<and> length (heap w1) = Suc (length (heap w))
         \<and> handle (heap w1 ! length (heap w)) \<noteq> None"
  using assms
  by (auto simp: lua_apr_socket_create_def on_return_def socket_alloc_def Let_def upd_obj_def
      apr_pool_create_def apr_socket_create_def new_socket_def socket_init_def init_buffers_def
      push_error_status_def nth_append
      split: result.splits prod.splits if_splits option.splits)



lemma identities_apr [simp]: "identities (w\<lparr>apr := N\<rparr>) = identities w"
  by (simp add: identities_def)

lemma identities_upd_obj [simp]:
  assumes "\<And>obj. family (f obj) = family obj" and "\<And>obj. protocol (f obj) = protocol obj"
  shows "identities (upd_obj a f w) = identities w"
proof -
  have "map (\<lambda>obj. (family obj, protocol obj)) ((heap w)[a := f (heap w ! a)])
        = map (\<lambda>obj. (family obj, protocol obj)) (heap w)"
  proof (rule nth_equalityI)
    fix i assume "i < length (map (\<lambda>obj. (family obj, protocol obj)) ((heap w)[a := f (heap w ! a)]))"
    then show "map (\<lambda>obj. (family obj, protocol obj)) ((heap w)[a := f (heap w ! a)]) ! i
               = map (\<lambda>obj. (family obj, protocol obj)) (heap w) ! i"
      by (cases "a = i") (simp_all add: assms)
  qed simp
  then show ?thesis by (simp add: identities_def upd_obj_def)
qed

lemma identities_nth:
  assumes "identities w1 = identities w @ xs" and "a < length (heap w)"
  shows "family (heap w1 ! a) = family (heap w ! a) \<and> protocol (heap w1 ! a) = protocol (heap w ! a)"
proof -
  have "length (identities w1) = length (identities w) + length xs"
    by (simp add: assms(1))
  then have len: "a < length (heap w1)"
    using assms(2) by (simp add: identities_def)
  have "identities w1 ! a = identities w ! a"
    using assms by (simp add: nth_append identities_def)
  with len assms(2) show ?thesis by (simp add: identities_def)
qed

lemma identities_socket_alloc:
  "socket_alloc fam proto w = (st, obj, w1) \<Longrightarrow> identities w1 = identities w @ [(fam, proto)]"
  by (auto simp: socket_alloc_def Let_def split: prod.splits)
     (simp add: identities_def new_object_def)

lemma identities_socket_init [simp]: "identities (socket_init a w) = identities w"
  by (simp add: socket_init_def init_buffers_def)

lemma identities_socket_close_impl:
  "identities (snd (socket_close_impl a w)) = identities w"
  by (auto simp: socket_close_impl_def split: option.splits prod.splits)


lemma identities_socket_bind: "identities (snd (socket_bind p args w)) = identities w"
  by (simp add: socket_bind_def on_return_def Let_def split: result.splits prod.splits)

lemma identities_socket_connect: "identities (snd (socket_connect p args w)) = identities w"
  by (simp add: socket_connect_def on_return_def Let_def split: result.splits prod.splits)

lemma identities_socket_listen: "identities (snd (socket_listen p args w)) = identities w"
  by (simp add: socket_listen_def on_return_def Let_def split: result.splits prod.splits)

lemma identities_socket_read: "identities (snd (socket_read p args w)) = identities w"
  by (simp add: socket_read_def on_return_def Let_def split: result.splits prod.splits)

lemma identities_socket_lines: "identities (snd (socket_lines p args w)) = identities w"
  by (simp add: socket_lines_def on_return_def Let_def split: result.splits prod.splits)

lemma identities_socket_write: "identities (snd (socket_write p args w)) = identities w"
  by (simp add: socket_write_def on_return_def Let_def split: result.splits prod.splits)

lemma identities_socket_timeout_get: "identities (snd (socket_timeout_get p args w)) = identities w"
  by (simp add: socket_timeout_get_def on_return_def Let_def split: result.splits prod.splits)

lemma identities_socket_timeout_set: "identities (snd (socket_timeout_set p args w)) = identities w"
  by (simp add: socket_timeout_set_def on_return_def Let_def split: result.splits prod.splits)

lemma identities_socket_addr_get: "identities (snd (socket_addr_get p args w)) = identities w"
  by (simp add: socket_addr_get_def on_return_def Let_def split: result.splits prod.splits)

lemma identities_socket_close_implD:
  "socket_close_impl a w = (st, w1) \<Longrightarrow> identities w1 = identities w"
  using identities_socket_close_impl [of a w] by simp

lemma identities_socket_close: "identities (snd (socket_close p args w)) = identities w"
  by (auto simp: socket_close_def on_return_def Let_def split: result.splits prod.splits
      dest: identities_socket_close_implD)

lemma identities_socket_gc: "identities (snd (socket_gc p args w)) = identities w"
  by (simp add: socket_gc_def on_return_def identities_socket_close_impl split: result.splits)

lemma identities_socket_tostring: "identities (snd (socket_tostring p args w)) = identities w"
  by (simp add: socket_tostring_def on_return_def split: result.splits)

lemma identities_socket_accept:
  "\<exists>xs. identities (snd (socket_accept p args w)) = identities w @ xs"
  by (auto simp: socket_accept_def on_return_def Let_def
      split: result.splits prod.splits option.splits dest!: identities_socket_alloc)

lemma identities_lua_apr_socket_create:
  "\<exists>xs. identities (snd (lua_apr_socket_create p args w)) = identities w @ xs"
  by (auto simp: lua_apr_socket_create_def on_return_def Let_def
      split: result.splits prod.splits option.splits dest!: identities_socket_alloc)

lemma identities_socket_methods:
  "\<exists>xs. identities (snd (socket_methods m p args w)) = identities w @ xs"
  by (cases m)
     (simp_all add: identities_socket_bind identities_socket_connect identities_socket_listen
        identities_socket_read identities_socket_lines identities_socket_write
        identities_socket_timeout_get identities_socket_timeout_set identities_socket_addr_get
        identities_socket_close identities_socket_gc identities_socket_tostring
        identities_socket_accept)


lemma native_pools: "native c N = (st, N1) \<Longrightarrow> pools N1 = pools N"
  by (auto simp: native_def split: list.splits)

lemma native_sockets: "native c N = (st, N1) \<Longrightarrow> sockets N1 = sockets N"
  by (auto simp: native_def split: list.splits)

lemma native_on_pools: "native_on h c N = (st, N1) \<Longrightarrow> pools N1 = pools N"
  by (auto simp: native_on_def native_pools split: if_splits)

lemma native_on_sockets: "native_on h c N = (st, N1) \<Longrightarrow> sockets N1 = sockets N"
  by (auto simp: native_on_def native_sockets split: if_splits)

lemma socket_alloc_success:
  assumes "socket_alloc fam proto w = (APR_SUCCESS, objptr, w1)"
  shows "objptr = Some (length (heap w)) \<and> heap w1 = heap w @ [new_object\<lparr>family := fam, protocol := proto, pool := Some (length (pools (apr w)))\<rparr>]
     \<and> pools (apr w1) = pools (apr w) @ [True] \<and> sockets (apr w1) = sockets (apr w)"
  using assms
  by (auto simp: socket_alloc_def Let_def apr_pool_create_def upd_obj_def
      split: prod.splits if_splits dest: native_pools native_sockets)

lemma socket_alloc_failure:
  assumes "socket_alloc fam proto w = (st, objptr, w1)" and "st \<noteq> APR_SUCCESS"
  shows "objptr = None"
  using assms
  by (auto simp: socket_alloc_def Let_def split: prod.splits if_splits)


lemma new_socket_success:
  assumes "new_socket partial old (st0, N0) = (APR_SUCCESS, h, N1)"
  shows "st0 = APR_SUCCESS \<and> h = Some (length (sockets N0)) \<and> pools N1 = pools N0
         \<and> sockets N1 = sockets N0 @ [fresh_socket True]"
  using assms by (auto simp: new_socket_def split: if_splits)

lemma apr_socket_accept_success:
  assumes "apr_socket_accept partial old srv pl N = (APR_SUCCESS, h, N1)"
  shows "h = Some (length (sockets N)) \<and> pools N1 = pools N
         \<and> sockets N1 = sockets N @ [fresh_socket True]"
proof -
  obtain st0 N0 where n: "native_on srv (Socket_accept srv pl) N = (st0, N0)"
    by (cases "native_on srv (Socket_accept srv pl) N")
  with assms have "new_socket partial old (st0, N0) = (APR_SUCCESS, h, N1)"
    by (simp add: apr_socket_accept_def)
  from new_socket_success [OF this] native_on_pools [OF n] native_on_sockets [OF n]
  show ?thesis by simp
qed

lemma apr_socket_create_success:
  assumes "apr_socket_create partial old fam ty proto pl N = (APR_SUCCESS, h, N1)"
  shows "h = Some (length (sockets N)) \<and> pools N1 = pools N
         \<and> sockets N1 = sockets N @ [fresh_socket True]"
proof -
  obtain st0 N0 where n: "native (Socket_create fam ty proto pl) N = (st0, N0)"
    by (cases "native (Socket_create fam ty proto pl) N")
  with assms have "new_socket partial old (st0, N0) = (APR_SUCCESS, h, N1)"
    by (simp add: apr_socket_create_def)
  from new_socket_success [OF this] native_pools [OF n] native_sockets [OF n]
  show ?thesis by simp
qed

lemma socket_accept_success:
  assumes "arg args 1 = Some (LUserdata a)"
      and "socket_accept p args w = (Return [LUserdata c], w1)"
  shows "a < length (heap w) \<and> c = length (heap w) \<and> length (heap w1) = Suc (length (heap w))
         \<and> heap w1 ! a = heap w ! a
         \<and> family (heap w1 ! c) = family (heap w ! a)
         \<and> protocol (heap w1 ! c) = protocol (heap w ! a)
         \<and> pool (heap w1 ! c) = Some (length (pools (apr w)))
         \<and> pools (apr w1) = pools (apr w) @ [True]
         \<and> handle (heap w1 ! c) = Some (length (sockets (apr w)))"
proof -
  from assms(2) obtain b where chk: "socket_check args 1 True w = Return b"
    by (cases "socket_check args 1 True w") (auto simp: socket_accept_def)
  with assms(1) have ab: "b = a" and a: "a < length (heap w)"
    using socket_check_ReturnD [OF chk] by auto
  obtain st objptr w0 where
    al: "socket_alloc (family (heap w ! a)) (protocol (heap w ! a)) w = (st, objptr, w0)"
    by (metis prod_cases3)
  show ?thesis
  proof (cases "st = APR_SUCCESS")
    case False
    then have "objptr = None" using socket_alloc_failure [OF al] by simp
    with assms(2) chk ab al show ?thesis by (simp add: socket_accept_def)
  next
    case True
    note s = socket_alloc_success [OF al [unfolded True]]
    let ?c = "length (heap w)"
    obtain st2 h N where
      acc: "apr_socket_accept (partial_out p) (handle (heap w0 ! ?c)) (handle (heap w0 ! a))
              (pool (heap w0 ! ?c)) (apr w0) = (st2, h, N)"
      by (metis prod_cases3)
    from assms(2) chk ab al True s acc have st2: "st2 = APR_SUCCESS"
      and c: "c = ?c"
      and w1: "w1 = socket_init ?c (upd_obj ?c (\<lambda>obj. obj\<lparr>handle := h\<rparr>) (w0\<lparr>apr := N\<rparr>))"
      by (auto simp: socket_accept_def Let_def push_error_status_def split: if_splits)
    note n = apr_socket_accept_success [OF acc [unfolded st2]]
    from s n a show ?thesis
      unfolding c w1
      by (simp add: socket_init_def upd_obj_def init_buffers_def nth_append new_object_def)
  qed
qed




lemma arg_simps [simp]:
  "arg (x # xs) (Suc 0) = Some x"
  "arg [] i = None"
  "arg [x] 2 = None"
  "arg (x # y # xs) 2 = Some y"
  "arg (x # y # z # xs) 3 = Some z"
  by (simp_all add: arg_def)

lemma socket_close_open_world:
  "socket_close linux [LUserdata 0] open_world = (Return [LBoolean True], closed_world)"
  "closed_world = \<lparr>heap =
      [\<lparr>input_buffer = \<lparr>rb_object = Some 0, rb_data = []\<rparr>,
          output_buffer = \<lparr>wb_object = Some 0, wb_data = []\<rparr>, pool = None,
          handle = None, family = 2, protocol = 6\<rparr>],
      apr =
        \<lparr>pools = [False],
           sockets =
             [\<lparr>socketdes = False, timeout = - 1,
                 local_addr = None, remote_addr = None, sent = [],
                listen_queue = None\<rparr>],
           script = [],
           calls =
             [Pool_create, Socket_create 2 1 6 (Some 0),
              Socket_close (Some 0), Pool_destroy 0]\<rparr>\<rparr>"
  by (simp_all add: closed_world_def open_world_eq socket_close_def socket_check_def check_object_def
      socket_close_impl_def apr_socket_close_def native_on_def valid_socket_def native_def
      upd_socket_def upd_obj_def apr_pool_destroy_def push_status_def)

lemma socket_accept_open_world:
  "socket_accept linux [LUserdata 0] open_world = (Return [LUserdata 1], accepted_world)"
  "accepted_world = \<lparr>heap =
     [\<lparr>input_buffer = \<lparr>rb_object = Some 0, rb_data = []\<rparr>,
         output_buffer = \<lparr>wb_object = Some 0, wb_data = []\<rparr>, pool = Some 0,
         handle = Some 0, family = 2, protocol = 6\<rparr>,
      \<lparr>input_buffer = \<lparr>rb_object = Some 1, rb_data = []\<rparr>,
         output_buffer = \<lparr>wb_object = Some 1, wb_data = []\<rparr>, pool = Some 1,
         handle = Some 1, family = 2, protocol = 6\<rparr>],
     apr =
       \<lparr>pools = [True, True],
          sockets =
            [\<lparr>socketdes = True, timeout = - 1,
                local_addr = None, remote_addr = None, sent = [],
                listen_queue = None\<rparr>,
             \<lparr>socketdes = True, timeout = - 1,
                local_addr = None, remote_addr = None, sent = [],
                listen_queue = None\<rparr>],
          script = [],
          calls =
            [Pool_create, Socket_create 2 1 6 (Some 0), Pool_create,
             Socket_accept (Some 0) (Some 1)]\<rparr>\<rparr>"
  by (simp_all add: accepted_world_def open_world_eq socket_accept_def socket_check_def check_object_def
      socket_alloc_def Let_def new_object_def apr_pool_create_def native_def upd_obj_def
      apr_socket_accept_def native_on_def valid_socket_def new_socket_def fresh_socket_def
      socket_init_def init_buffers_def linux_def)

subsection \<open>Operations on a closed handle\<close>

text \<open>
  C3. On a socket object whose native descriptor is \<^verbatim>\<open>NULL\<close>, each of connect, bind, listen,
  accept, read, write, lines, timeout\_get, timeout\_set and addr\_get raises
  \<^verbatim>\<open>attempt to use a closed socket\<close>. The check comes before anything else: the world,
  and with it the log of native calls and the pools, is unchanged.
\<close>

theorem closed_handle_rejected:
  assumes "arg args 1 = Some (LUserdata a)" and "a < length (heap w)"
      and "handle (heap w ! a) = None"
      and "m \<in> {M_bind, M_listen, M_accept, M_connect, M_read, M_write, M_lines,
                 M_timeout_get, M_timeout_set, M_addr_get}"
  shows "socket_methods m p args w = (Raise (Error_msg ''attempt to use a closed socket''), w)"
  using assms(4) socket_check_closed [OF assms(1-3)]
  by (auto simp: socket_bind_def socket_listen_def socket_accept_def socket_connect_def
      socket_read_def socket_write_def socket_lines_def socket_timeout_get_def
      socket_timeout_set_def socket_addr_get_def)

theorem closed_handle_rejected_witness:
  "arg [LUserdata 0, LNumber 5] 1 = Some (LUserdata 0) \<and> 0 < length (heap closed_world)
   \<and> handle (heap closed_world ! 0) = None
   \<and> socket_methods M_listen linux [LUserdata 0, LNumber 5] closed_world
       = (Raise (Error_msg ''attempt to use a closed socket''), closed_world)"
  using closed_handle_rejected [of "[LUserdata 0, LNumber 5]" 0 closed_world M_listen linux]
  by (simp add: socket_close_open_world(2))

text \<open>
  C1, as the code has it. \<^verbatim>\<open>socket_close\<close> goes through \<^verbatim>\<open>socket_check(L, 1, 1)\<close>: after a
  close that returned, a second close raises \<^verbatim>\<open>attempt to use a closed socket\<close> and
  changes nothing; the finalizer on the closed object returns without any native call, so
  neither the descriptor nor the pool is released twice.
\<close>

theorem socket_close_twice:
  assumes "arg args 1 = Some (LUserdata a)" and "socket_close p args w = (Return r, w1)"
  shows "socket_close p args w1 = (Raise (Error_msg ''attempt to use a closed socket''), w1)
         \<and> socket_gc p args w1 = (Return [], w1)"
proof -
  from assms(2) obtain b where chk: "socket_check args 1 True w = Return b"
    by (cases "socket_check args 1 True w") (auto simp: socket_close_def)
  with assms(1) have ab: "b = a" and a: "a < length (heap w)"
    using socket_check_ReturnD [OF chk] by auto
  from assms(2) chk ab obtain st where impl: "socket_close_impl a w = (st, w1)"
    by (auto simp: socket_close_def split: prod.splits)
  note closed = socket_close_impl_closed [OF a impl]
  with a have a1: "a < length (heap w1)" by simp
  have "socket_check args 1 True w1 = Raise (Error_msg ''attempt to use a closed socket'')"
    using socket_check_closed [OF assms(1) a1] closed by simp
  moreover have "socket_check args 1 False w1 = Return a"
    by (rule socket_check_object [OF assms(1) a1])
  ultimately show ?thesis
    using closed by (simp add: socket_close_def socket_gc_def socket_close_impl_noop)
qed

theorem socket_close_twice_witness:
  "arg [LUserdata 0] 1 = Some (LUserdata 0)
   \<and> socket_close linux [LUserdata 0] open_world = (Return [LBoolean True], closed_world)
   \<and> socket_close linux [LUserdata 0] closed_world
       = (Raise (Error_msg ''attempt to use a closed socket''), closed_world)
   \<and> socket_gc linux [LUserdata 0] closed_world = (Return [], closed_world)"
  using socket_close_twice [of "[LUserdata 0]" 0 linux open_world "[LBoolean True]" closed_world]
  by (simp add: socket_close_open_world(1))

text \<open>The first close returns \<^verbatim>\<open>true\<close>; the second one does not.\<close>

theorem socket_close_twice_counterexample:
  "fst (socket_close linux [LUserdata 0] open_world) = Return [LBoolean True]
   \<and> fst (socket_close linux [LUserdata 0] (snd (socket_close linux [LUserdata 0] open_world)))
       \<noteq> Return [LBoolean True]"
  by (simp add: socket_close_open_world(1))
     (simp add: socket_close_open_world(2) socket_close_def socket_check_def check_object_def)

subsection \<open>Textual representation\<close>

lemma socket_close_ReturnD:
  assumes "arg args 1 = Some (LUserdata a)" and "socket_close p args w = (Return r, w1)"
  shows "a < length (heap w1) \<and> handle (heap w1 ! a) = None \<and> pool (heap w1 ! a) = None"
proof -
  from assms(2) obtain b where chk: "socket_check args 1 True w = Return b"
    by (cases "socket_check args 1 True w") (auto simp: socket_close_def)
  with assms(1) have ab: "b = a" and a: "a < length (heap w)"
    using socket_check_ReturnD [OF chk] by auto
  from assms(2) chk ab obtain st where impl: "socket_close_impl a w = (st, w1)"
    by (auto simp: socket_close_def split: prod.splits)
  from socket_close_impl_closed [OF a impl] a show ?thesis by simp
qed

lemma socket_tostring_eq:
  assumes "arg args 1 = Some (LUserdata a)" and "a < length (heap w)"
  shows "socket_tostring p args w =
           (Return [LString (if handle (heap w ! a) \<noteq> None then ''Open Lua/APR socket object''
                             else ''Closed Lua/APR socket object'')], w)"
  using socket_check_object [OF assms] by (simp add: socket_tostring_def)

text \<open>
  C9. \<^verbatim>\<open>__tostring\<close> on a socket object, whatever its state, returns one string and raises
  nothing: \<^verbatim>\<open>Open Lua/APR socket object\<close> when the native descriptor is not \<^verbatim>\<open>NULL\<close>,
  \<^verbatim>\<open>Closed Lua/APR socket object\<close> when it is (also after the pool is gone). The
  object a successful create returns reads as open; after a close that returned it reads
  as closed.
\<close>

theorem socket_tostring_total:
  "(arg args 1 = Some (LUserdata a) \<and> a < length (heap w) \<longrightarrow>
      socket_tostring p args w =
        (Return [LString (if handle (heap w ! a) \<noteq> None then ''Open Lua/APR socket object''
                          else ''Closed Lua/APR socket object'')], w))
   \<and> (lua_apr_socket_create p cargs w0 = (Return [v], w1) \<longrightarrow>
        socket_tostring p [v] w1 = (Return [LString ''Open Lua/APR socket object''], w1))
   \<and> (arg args' 1 = Some (LUserdata a') \<and> socket_close p args' w' = (Return r, w2) \<longrightarrow>
        socket_tostring p args' w2 = (Return [LString ''Closed Lua/APR socket object''], w2))"
proof (intro conjI impI)
  assume "arg args 1 = Some (LUserdata a) \<and> a < length (heap w)"
  then show "socket_tostring p args w =
        (Return [LString (if handle (heap w ! a) \<noteq> None then ''Open Lua/APR socket object''
                          else ''Closed Lua/APR socket object'')], w)"
    using socket_tostring_eq by blast
next
  assume c: "lua_apr_socket_create p cargs w0 = (Return [v], w1)"
  note s = lua_apr_socket_create_success [OF c]
  have "arg [v] 1 = Some (LUserdata (length (heap w0)))" using s by simp
  moreover have "length (heap w0) < length (heap w1)" using s by simp
  ultimately show "socket_tostring p [v] w1 = (Return [LString ''Open Lua/APR socket object''], w1)"
    using socket_tostring_eq [of "[v]" "length (heap w0)" w1 p] s by simp
next
  assume "arg args' 1 = Some (LUserdata a') \<and> socket_close p args' w' = (Return r, w2)"
  then have a: "arg args' 1 = Some (LUserdata a')" and c: "socket_close p args' w' = (Return r, w2)"
    by simp_all
  from socket_close_ReturnD [OF a c] socket_tostring_eq [OF a, of w2 p]
  show "socket_tostring p args' w2 = (Return [LString ''Closed Lua/APR socket object''], w2)"
    by simp
qed

lemma lua_apr_socket_create_linux:
  "lua_apr_socket_create linux [] (world0 []) = (Return [LUserdata 0], open_world)"
  by (simp add: open_world_eq lua_apr_socket_create_def world0_def linux_def luaL_checkoption_def
     luaL_optstring_def family_check_def family_options_def family_values_def
     socket_alloc_def new_object_def apr_pool_create_def native_def upd_obj_def
     apr_socket_create_def new_socket_def fresh_socket_def socket_init_def init_buffers_def)

theorem socket_tostring_total_witness:
  "arg [LUserdata 0] 1 = Some (LUserdata 0) \<and> 0 < length (heap closed_world)
   \<and> lua_apr_socket_create linux [] (world0 []) = (Return [LUserdata 0], open_world)
   \<and> socket_close linux [LUserdata 0] open_world = (Return [LBoolean True], closed_world)
   \<and> socket_tostring linux [LUserdata 0] open_world
       = (Return [LString ''Open Lua/APR socket object''], open_world)
   \<and> socket_tostring linux [LUserdata 0] closed_world
       = (Return [LString ''Closed Lua/APR socket object''], closed_world)"
  using socket_tostring_total [where args = "[LUserdata 0]" and a = 0 and w = closed_world
          and p = linux and cargs = "[]" and ?w0.0 = "world0 []" and v = "LUserdata 0"
          and ?w1.0 = open_world and args' = "[LUserdata 0]" and a' = 0 and w' = open_world
          and r = "[LBoolean True]" and ?w2.0 = closed_world]
  by (simp add: lua_apr_socket_create_linux socket_close_open_world)

subsection \<open>Family and protocol\<close>

text \<open>
  C5. A successful accept returns a new object, at an address no earlier object has and
  different from the listening one, with a pool created by this call and with the family
  and protocol of the listening object, which is itself unchanged. No method, metamethod or
  create changes the family or protocol of an existing object.
\<close>

theorem accept_shares_family_protocol:
  "(arg args 1 = Some (LUserdata a) \<and> socket_accept p args w = (Return [LUserdata c], w1) \<longrightarrow>
      c \<noteq> a \<and> \<not> c < length (heap w) \<and> c < length (heap w1) \<and> heap w1 ! a = heap w ! a
      \<and> family (heap w1 ! c) = family (heap w ! a)
      \<and> protocol (heap w1 ! c) = protocol (heap w ! a)
      \<and> pool (heap w1 ! c) = Some (length (pools (apr w)))
      \<and> pools (apr w1) = pools (apr w) @ [True])
   \<and> (\<forall>b < length (heap w').
         family (heap (snd (socket_methods m p margs w')) ! b) = family (heap w' ! b)
         \<and> protocol (heap (snd (socket_methods m p margs w')) ! b) = protocol (heap w' ! b))
   \<and> (\<forall>b < length (heap w').
         family (heap (snd (lua_apr_socket_create p cargs w')) ! b) = family (heap w' ! b)
         \<and> protocol (heap (snd (lua_apr_socket_create p cargs w')) ! b) = protocol (heap w' ! b))"
  (is "?accept \<and> ?methods \<and> ?create")
proof -
  have ?accept
  proof
    assume "arg args 1 = Some (LUserdata a) \<and> socket_accept p args w = (Return [LUserdata c], w1)"
    then have "arg args 1 = Some (LUserdata a)"
      and "socket_accept p args w = (Return [LUserdata c], w1)"
      by simp_all
    from socket_accept_success [OF this]
    show "c \<noteq> a \<and> \<not> c < length (heap w) \<and> c < length (heap w1) \<and> heap w1 ! a = heap w ! a
      \<and> family (heap w1 ! c) = family (heap w ! a)
      \<and> protocol (heap w1 ! c) = protocol (heap w ! a)
      \<and> pool (heap w1 ! c) = Some (length (pools (apr w)))
      \<and> pools (apr w1) = pools (apr w) @ [True]"
      by auto
  qed
  moreover have ?methods
  proof (intro allI impI)
    fix b assume b: "b < length (heap w')"
    obtain xs where "identities (snd (socket_methods m p margs w')) = identities w' @ xs"
      using identities_socket_methods by blast
    from identities_nth [OF this b]
    show "family (heap (snd (socket_methods m p margs w')) ! b) = family (heap w' ! b)
         \<and> protocol (heap (snd (socket_methods m p margs w')) ! b) = protocol (heap w' ! b)" .
  qed
  moreover have ?create
  proof (intro allI impI)
    fix b assume b: "b < length (heap w')"
    obtain xs where "identities (snd (lua_apr_socket_create p cargs w')) = identities w' @ xs"
      using identities_lua_apr_socket_create by blast
    from identities_nth [OF this b]
    show "family (heap (snd (lua_apr_socket_create p cargs w')) ! b) = family (heap w' ! b)
         \<and> protocol (heap (snd (lua_apr_socket_create p cargs w')) ! b) = protocol (heap w' ! b)" .
  qed
  ultimately show ?thesis by blast
qed

theorem accept_shares_family_protocol_witness:
  "arg [LUserdata 0] 1 = Some (LUserdata 0)
   \<and> socket_accept linux [LUserdata 0] open_world = (Return [LUserdata 1], accepted_world)
   \<and> family (heap accepted_world ! 1) = family (heap open_world ! 0)
   \<and> protocol (heap accepted_world ! 1) = protocol (heap open_world ! 0)
   \<and> pool (heap accepted_world ! 1) = Some (length (pools (apr open_world)))
   \<and> 0 < length (heap open_world)
   \<and> family (heap (snd (socket_methods M_close linux [LUserdata 0] open_world)) ! 0)
       = family (heap open_world ! 0)
   \<and> protocol (heap (snd (lua_apr_socket_create linux [] open_world)) ! 0)
       = protocol (heap open_world ! 0)"
  using accept_shares_family_protocol [where args = "[LUserdata 0]" and a = 0 and p = linux
          and w = open_world and c = 1 and ?w1.0 = accepted_world and w' = open_world
          and m = M_close and margs = "[LUserdata 0]" and cargs = "[]"]
  by (simp add: socket_accept_open_world(1)) (simp add: open_world_eq)

subsection \<open>Timeouts\<close>

lemma native_calls: "native c N = (st, N1) \<Longrightarrow> calls N1 = calls N @ [c]"
  by (auto simp: native_def split: list.splits)

lemma native_on_calls: "native_on h c N = (st, N1) \<Longrightarrow> calls N1 = calls N @ [c]"
  by (auto simp: native_on_def native_calls split: if_splits)

lemma native_success:
  assumes "set (take (Suc 0) (script N)) \<subseteq> {APR_SUCCESS}" and "native c N = (st, N1)"
  shows "st = APR_SUCCESS \<and> script N1 = tl (script N)"
  using assms by (cases "script N") (auto simp: native_def)

lemma native_on_success:
  assumes "valid_socket h N" and "set (take (Suc 0) (script N)) \<subseteq> {APR_SUCCESS}"
      and "native_on h c N = (st, N1)"
  shows "st = APR_SUCCESS \<and> script N1 = tl (script N)"
  using assms native_success [of N c st N1] by (simp add: native_on_def)

lemma take_2_success:
  assumes "set (take 2 xs) \<subseteq> {APR_SUCCESS}"
  shows "set (take (Suc 0) xs) \<subseteq> {APR_SUCCESS} \<and> set (take (Suc 0) (tl xs)) \<subseteq> {APR_SUCCESS}"
proof (cases xs)
  case Nil
  then show ?thesis by simp
next
  case (Cons x ys)
  with assms show ?thesis by (cases ys) (simp_all add: numeral_2_eq_2)
qed



lemma socket_timeout_set_core:
  assumes "arg args 1 = Some (LUserdata a)" and "a < length (heap w)"
      and "handle (heap w ! a) = Some h"
      and "(if lua_isnumber (arg args 2)
            then luaL_checkinteger args 2
            else Return (if lua_toboolean (arg args 2) then - 1 else 0)) = Return t"
  shows "\<exists>st N. socket_timeout_set p args w = (Return (push_status p st), w\<lparr>apr := N\<rparr>)
           \<and> calls N = calls (apr w) @ [Socket_timeout_set (Some h) t]
           \<and> (h < length (sockets (apr w)) \<and> set (take (Suc 0) (script (apr w))) \<subseteq> {APR_SUCCESS}
                \<longrightarrow> st = APR_SUCCESS \<and> script N = tl (script (apr w))
                    \<and> sockets N = (sockets (apr w))[h := (sockets (apr w) ! h)\<lparr>timeout := t\<rparr>])"
proof -
  have chk: "socket_check args 1 True w = Return a"
    by (rule socket_check_open [OF assms(1-3)])
  obtain st N1 where n: "native_on (Some h) (Socket_timeout_set (Some h) t) (apr w) = (st, N1)"
    by (cases "native_on (Some h) (Socket_timeout_set (Some h) t) (apr w)")
  let ?N = "if st = APR_SUCCESS then upd_socket (Some h) (\<lambda>s. s\<lparr>timeout := t\<rparr>) N1 else N1"
  have "socket_timeout_set p args w = (Return (push_status p st), w\<lparr>apr := ?N\<rparr>)"
    using chk assms(3,4) n by (simp add: socket_timeout_set_def apr_socket_timeout_set_def)
  moreover have "calls ?N = calls (apr w) @ [Socket_timeout_set (Some h) t]"
    using native_on_calls [OF n] by (simp add: upd_socket_def)
  moreover have "st = APR_SUCCESS \<and> script ?N = tl (script (apr w))
         \<and> sockets ?N = (sockets (apr w))[h := (sockets (apr w) ! h)\<lparr>timeout := t\<rparr>]"
    if "h < length (sockets (apr w))" and "set (take (Suc 0) (script (apr w))) \<subseteq> {APR_SUCCESS}"
    using native_on_success [OF _ that(2) n] native_on_sockets [OF n] that(1)
    by (simp add: valid_socket_def upd_socket_def)
  ultimately show ?thesis by blast
qed

lemma socket_timeout_get_core:
  assumes "arg args 1 = Some (LUserdata a)" and "a < length (heap w)"
      and "handle (heap w ! a) = Some h" and "h < length (sockets (apr w))"
      and "set (take (Suc 0) (script (apr w))) \<subseteq> {APR_SUCCESS}"
  shows "fst (socket_timeout_get p args w) =
           Return (if sint (timeout (sockets (apr w) ! h)) \<le> 0
                   then [LBoolean (timeout (sockets (apr w) ! h) \<noteq> 0)]
                   else [LNumber (timeout (sockets (apr w) ! h))])"
proof -
  have chk: "socket_check args 1 True w = Return a"
    by (rule socket_check_open [OF assms(1-3)])
  obtain st N1 where n: "native_on (Some h) (Socket_timeout_get (Some h)) (apr w) = (st, N1)"
    by (cases "native_on (Some h) (Socket_timeout_get (Some h)) (apr w)")
  from native_on_success [OF _ assms(5) n] assms(4) have st: "st = APR_SUCCESS"
    by (simp add: valid_socket_def)
  show ?thesis
    using chk assms(3) n st native_on_sockets [OF n]
    by (simp add: socket_timeout_get_def apr_socket_timeout_get_def)
qed

lemma timeout_set_then_get:
  assumes "a < length (heap w)" and "handle (heap w ! a) = Some h"
      and "h < length (sockets (apr w))"
      and "set (take 2 (script (apr w))) \<subseteq> {APR_SUCCESS}"
      and "(if lua_isnumber (arg (LUserdata a # rest) 2)
            then luaL_checkinteger (LUserdata a # rest) 2
            else Return (if lua_toboolean (arg (LUserdata a # rest) 2) then - 1 else 0)) = Return t"
  shows "fst (socket_timeout_set p (LUserdata a # rest) w) = Return [LBoolean True]
         \<and> fst (socket_timeout_get p [LUserdata a] (snd (socket_timeout_set p (LUserdata a # rest) w)))
             = Return (if sint t \<le> 0 then [LBoolean (t \<noteq> 0)] else [LNumber t])"
proof -
  note s = take_2_success [OF assms(4)]
  have a1: "arg (LUserdata a # rest) 1 = Some (LUserdata a)" by simp
  from socket_timeout_set_core [OF a1 assms(1,2,5)] s assms(3)
  obtain N where set: "socket_timeout_set p (LUserdata a # rest) w = (Return (push_status p APR_SUCCESS), w\<lparr>apr := N\<rparr>)"
    and scr: "script N = tl (script (apr w))"
    and socks: "sockets N = (sockets (apr w))[h := (sockets (apr w) ! h)\<lparr>timeout := t\<rparr>]"
    by blast
  have "fst (socket_timeout_get p [LUserdata a] (w\<lparr>apr := N\<rparr>)) =
           Return (if sint (timeout (sockets N ! h)) \<le> 0
                   then [LBoolean (timeout (sockets N ! h) \<noteq> 0)]
                   else [LNumber (timeout (sockets N ! h))])"
    using socket_timeout_get_core [of "[LUserdata a]" a "w\<lparr>apr := N\<rparr>" h p]
      assms(1-3) s scr socks by simp
  with set socks assms(3) show ?thesis by (simp add: push_status_def)
qed


text \<open>
  C4. On an open socket whose native calls succeed, \<^verbatim>\<open>timeout_set(true)\<close> followed by
  \<^verbatim>\<open>timeout_get()\<close> returns \<^verbatim>\<open>true\<close>, \<^verbatim>\<open>timeout_set(false)\<close> followed by
  \<^verbatim>\<open>timeout_get()\<close> returns \<^verbatim>\<open>false\<close>, and for every positive integer \<open>n\<close>
  \<^verbatim>\<open>timeout_set(n)\<close> followed by \<^verbatim>\<open>timeout_get()\<close> returns \<open>n\<close>.
\<close>

theorem timeout_roundtrip:
  assumes "a < length (heap w)" and "handle (heap w ! a) = Some h"
      and "h < length (sockets (apr w))"
      and "set (take 2 (script (apr w))) \<subseteq> {APR_SUCCESS}"
  shows "fst (socket_timeout_get p [LUserdata a]
                (snd (socket_timeout_set p [LUserdata a, LBoolean True] w))) = Return [LBoolean True]
         \<and> fst (socket_timeout_get p [LUserdata a]
                  (snd (socket_timeout_set p [LUserdata a, LBoolean False] w))) = Return [LBoolean False]
         \<and> (0 < sint n \<longrightarrow>
              fst (socket_timeout_get p [LUserdata a]
                    (snd (socket_timeout_set p [LUserdata a, LNumber n] w))) = Return [LNumber n])"
proof (intro conjI impI)
  show "fst (socket_timeout_get p [LUserdata a]
                (snd (socket_timeout_set p [LUserdata a, LBoolean True] w))) = Return [LBoolean True]"
    using timeout_set_then_get [OF assms, where rest = "[LBoolean True]" and t = "- 1" and p = p] by simp
  show "fst (socket_timeout_get p [LUserdata a]
                (snd (socket_timeout_set p [LUserdata a, LBoolean False] w))) = Return [LBoolean False]"
    using timeout_set_then_get [OF assms, where rest = "[LBoolean False]" and t = 0 and p = p] by simp
  assume "0 < sint n"
  then show "fst (socket_timeout_get p [LUserdata a]
                (snd (socket_timeout_set p [LUserdata a, LNumber n] w))) = Return [LNumber n]"
    using timeout_set_then_get [OF assms, where rest = "[LNumber n]" and t = n and p = p]
    by (simp add: luaL_checkinteger_def)
qed

theorem timeout_roundtrip_witness:
  "0 < length (heap open_world) \<and> handle (heap open_world ! 0) = Some 0
   \<and> 0 < length (sockets (apr open_world))
   \<and> set (take 2 (script (apr open_world))) \<subseteq> {APR_SUCCESS}
   \<and> 0 < sint (1500000 :: lua_Integer)
   \<and> fst (socket_timeout_get linux [LUserdata 0]
            (snd (socket_timeout_set linux [LUserdata 0, LBoolean True] open_world))) = Return [LBoolean True]
   \<and> fst (socket_timeout_get linux [LUserdata 0]
            (snd (socket_timeout_set linux [LUserdata 0, LBoolean False] open_world))) = Return [LBoolean False]
   \<and> fst (socket_timeout_get linux [LUserdata 0]
            (snd (socket_timeout_set linux [LUserdata 0, LNumber 1500000] open_world)))
       = Return [LNumber 1500000]"
  using timeout_roundtrip [where a = 0 and w = open_world and h = 0 and n = 1500000 and p = linux]
  by (simp add: open_world_eq)





subsection \<open>Accept\<close>

text \<open>When the pool of the client object cannot be created, \<^verbatim>\<open>socket_accept\<close> reaches
  \<^verbatim>\<open>socket_init(L, client)\<close> with \<^verbatim>\<open>client\<close> never assigned.\<close>

lemma socket_accept_alloc_failure:
  assumes "arg args 1 = Some (LUserdata a)" and "a < length (heap w)"
      and "handle (heap w ! a) = Some h"
      and "script (apr w) = st # rest" and "st \<noteq> APR_SUCCESS"
  shows "fst (socket_accept p args w) = Uninitialised_deref"
proof -
  have chk: "socket_check args 1 True w = Return a"
    by (rule socket_check_open [OF assms(1-3)])
  show ?thesis
    using chk assms(4,5)
    by (simp add: socket_accept_def socket_alloc_def Let_def apr_pool_create_def native_def)
qed

text \<open>When the pool is there and the native accept fails, the result is \<^verbatim>\<open>nil\<close> and the
  message.\<close>

lemma socket_accept_native_failure:
  assumes "arg args 1 = Some (LUserdata a)" and "a < length (heap w)"
      and "handle (heap w ! a) = Some h" and "h < length (sockets (apr w))"
      and "script (apr w) = APR_SUCCESS # st # rest" and "st \<noteq> APR_SUCCESS"
  shows "fst (socket_accept p args w) = Return [LNil, LString (apr_strerror p st)]"
proof -
  have chk: "socket_check args 1 True w = Return a"
    by (rule socket_check_open [OF assms(1-3)])
  show ?thesis
    using chk assms(2-6)
    by (simp add: socket_accept_def socket_alloc_def Let_def apr_pool_create_def native_def
        upd_obj_def nth_append apr_socket_accept_def native_on_def valid_socket_def new_socket_def
        push_error_status_def)
qed

text \<open>
  C2, at the failing input. With the answer 12 (\<^verbatim>\<open>ENOMEM\<close>) to \<^verbatim>\<open>apr_pool_create\<close>,
  \<^verbatim>\<open>apr.socket_create\<close> returns \<^verbatim>\<open>nil\<close> and the message, while \<^verbatim>\<open>accept\<close> on an open
  socket dereferences the unassigned \<^verbatim>\<open>client\<close> pointer.
\<close>

theorem socket_accept_pool_failure:
  "fst (lua_apr_socket_create linux [] (world0 [12])) = Return [LNil, LString ''Cannot allocate memory'']
   \<and> fst (socket_accept linux [LUserdata 0] (snd (lua_apr_socket_create linux [] (world0 [0, 0, 12]))))
       = Uninitialised_deref"
  by (simp add: lua_apr_socket_create_def world0_def linux_def luaL_checkoption_def
     luaL_optstring_def family_check_def family_options_def family_values_def
     socket_alloc_def new_object_def apr_pool_create_def native_def upd_obj_def
     apr_socket_create_def new_socket_def fresh_socket_def socket_init_def init_buffers_def
     push_error_status_def socket_accept_def socket_check_def check_object_def linux_strerror_def)

subsection \<open>Write\<close>

lemma write_values_Return:
  "write_values n2s args i k ob = (Return u, ob1) \<Longrightarrow>
     wb_object ob1 = wb_object ob
     \<and> wb_data ob1 = wb_data ob
         @ concat (map (\<lambda>j. case luaL_checkstring n2s args j of Return s \<Rightarrow> s | _ \<Rightarrow> [])
                       [i ..< i + k])"
proof (induction k arbitrary: i ob)
  case 0
  then show ?case by simp
next
  case (Suc k)
  from Suc.prems obtain s where s: "luaL_checkstring n2s args i = Return s"
    and rest: "write_values n2s args (Suc i) k (ob\<lparr>wb_data := wb_data ob @ s\<rparr>) = (Return u, ob1)"
    by (auto split: result.splits)
  have "[i ..< i + Suc k] = i # [Suc i ..< Suc i + k]"
    by (simp add: upt_rec)
  with Suc.IH [OF rest] s show ?case by simp
qed

lemma write_buffer_Return:
  assumes "write_buffer p args ob = (Return r, ob1)"
  shows "r = [LBoolean True] \<and> wb_object ob1 = wb_object ob
         \<and> wb_data ob1 = wb_data ob @ written_bytes (number2str p) args"
proof -
  from assms obtain u where
    "write_values (number2str p) args 2 (length args - 1) ob = (Return u, ob1)"
    and "r = push_status p APR_SUCCESS"
    by (auto simp: write_buffer_def split: prod.splits result.splits)
  with write_values_Return [of "number2str p" args 2 "length args - 1" ob u ob1]
  show ?thesis by (simp add: written_bytes_def push_status_def)
qed

lemma flush_buffer_success:
  assumes "flush_buffer ob N = (APR_SUCCESS, ob2, N2)"
  shows "wb_data ob2 = [] \<and> wb_object ob2 = wb_object ob
         \<and> (\<forall>h. wb_object ob = Some h \<longrightarrow> sent (sockets N2 ! h) = sent (sockets N ! h) @ wb_data ob)"
proof (cases "wb_data ob = []")
  case True
  with assms show ?thesis by (simp add: flush_buffer_def)
next
  case False
  obtain st N1 where n: "native_on (wb_object ob) (Socket_send (wb_object ob) (wb_data ob)) N = (st, N1)"
    by (cases "native_on (wb_object ob) (Socket_send (wb_object ob) (wb_data ob)) N")
  from assms False n have st: "st = APR_SUCCESS"
    and ob2: "ob2 = ob\<lparr>wb_data := []\<rparr>"
    and N2: "N2 = upd_socket (wb_object ob) (\<lambda>s. s\<lparr>sent := sent s @ wb_data ob\<rparr>) N1"
    by (auto simp: flush_buffer_def apr_socket_send_def split: if_splits)
  from n st have v: "valid_socket (wb_object ob) N"
    by (auto simp: native_on_def split: if_splits)
  from v N2 ob2 native_on_sockets [OF n] show ?thesis
    by (auto simp: valid_socket_def upd_socket_def split: option.splits)
qed

lemma flush_buffer_failure:
  assumes "wb_data ob \<noteq> []" and "script N = st # rest" and "st \<noteq> APR_SUCCESS"
      and "valid_socket (wb_object ob) N"
  shows "\<exists>N1. flush_buffer ob N = (st, ob, N1)"
  using assms
  by (simp add: flush_buffer_def apr_socket_send_def native_on_def native_def)

text \<open>
  C6. \<^verbatim>\<open>write\<close> flushes before it returns. When it returns \<^verbatim>\<open>true\<close>, the output buffer is
  empty and the bytes that were pending together with the bytes of the arguments have been
  appended, in order, to what the native socket has been sent. When the values were
  buffered and the native send then fails with a status \<open>st\<close>, \<^verbatim>\<open>write\<close> returns
  \<^verbatim>\<open>nil\<close> and the message of \<open>st\<close>, after one native send of those bytes.
\<close>

theorem socket_write_flushes:
  "(arg args 1 = Some (LUserdata a) \<and> socket_write p args w = (Return [LBoolean True], w1) \<longrightarrow>
      wb_data (output_buffer (heap w1 ! a)) = []
      \<and> (\<forall>h. wb_object (output_buffer (heap w ! a)) = Some h \<longrightarrow>
            sent (sockets (apr w1) ! h)
              = sent (sockets (apr w) ! h) @ wb_data (output_buffer (heap w ! a))
                @ written_bytes (number2str p) args))
   \<and> (arg args' 1 = Some (LUserdata a') \<and> a' < length (heap w') \<and> handle (heap w' ! a') \<noteq> None
       \<and> valid_socket (wb_object (output_buffer (heap w' ! a'))) (apr w')
       \<and> fst (write_buffer p args' (output_buffer (heap w' ! a'))) = Return [LBoolean True]
       \<and> wb_data (snd (write_buffer p args' (output_buffer (heap w' ! a')))) \<noteq> []
       \<and> script (apr w') = st # rest \<and> st \<noteq> APR_SUCCESS \<longrightarrow>
      fst (socket_write p args' w') = Return [LNil, LString (apr_strerror p st)]
      \<and> calls (apr (snd (socket_write p args' w')))
          = calls (apr w')
            @ [Socket_send (wb_object (output_buffer (heap w' ! a')))
                 (wb_data (output_buffer (heap w' ! a')) @ written_bytes (number2str p) args')])"
  (is "?success \<and> ?failure")
proof -
  have ?success
  proof
    assume "arg args 1 = Some (LUserdata a) \<and> socket_write p args w = (Return [LBoolean True], w1)"
    then have a1: "arg args 1 = Some (LUserdata a)"
      and wr: "socket_write p args w = (Return [LBoolean True], w1)"
      by simp_all
    from wr obtain b where chk: "socket_check args 1 True w = Return b"
      by (cases "socket_check args 1 True w") (auto simp: socket_write_def)
    with a1 have ab: "b = a" and a: "a < length (heap w)"
      using socket_check_ReturnD [OF chk] by auto
    let ?ob = "output_buffer (heap w ! a)"
    obtain r ob1 where wb: "write_buffer p args ?ob = (r, ob1)"
      by (cases "write_buffer p args ?ob")
    let ?w1 = "upd_obj a (\<lambda>obj. obj\<lparr>output_buffer := ob1\<rparr>) w"
    obtain stf ob2 N where fl: "flush_buffer ob1 (apr ?w1) = (stf, ob2, N)"
      by (metis prod_cases3)
    from wr chk ab wb fl obtain nres where r: "r = Return nres"
      by (cases r) (auto simp: socket_write_def Let_def)
    from wr chk ab wb fl r have stf: "stf = APR_SUCCESS"
      and w1: "w1 = upd_obj a (\<lambda>obj. obj\<lparr>output_buffer := ob2\<rparr>) (?w1\<lparr>apr := N\<rparr>)"
      by (auto simp: socket_write_def Let_def push_error_status_def split: if_splits)
    note wbr = write_buffer_Return [OF wb [unfolded r]]
    have apr1: "apr ?w1 = apr w" by (simp add: upd_obj_def)
    note flr = flush_buffer_success [OF fl [unfolded stf apr1]]
    have "output_buffer (heap w1 ! a) = ob2" and "apr w1 = N"
      using a by (simp_all add: w1 upd_obj_def)
    with wbr flr
    show "wb_data (output_buffer (heap w1 ! a)) = []
      \<and> (\<forall>h. wb_object (output_buffer (heap w ! a)) = Some h \<longrightarrow>
            sent (sockets (apr w1) ! h)
              = sent (sockets (apr w) ! h) @ wb_data (output_buffer (heap w ! a))
                @ written_bytes (number2str p) args)"
      by simp
  qed
  moreover have ?failure
  proof
    assume h: "arg args' 1 = Some (LUserdata a') \<and> a' < length (heap w') \<and> handle (heap w' ! a') \<noteq> None
       \<and> valid_socket (wb_object (output_buffer (heap w' ! a'))) (apr w')
       \<and> fst (write_buffer p args' (output_buffer (heap w' ! a'))) = Return [LBoolean True]
       \<and> wb_data (snd (write_buffer p args' (output_buffer (heap w' ! a')))) \<noteq> []
       \<and> script (apr w') = st # rest \<and> st \<noteq> APR_SUCCESS"
    then obtain hh where hh: "handle (heap w' ! a') = Some hh" by auto
    from h have chk: "socket_check args' 1 True w' = Return a'"
      using socket_check_open [OF _ _ hh] by simp
    let ?ob = "output_buffer (heap w' ! a')"
    obtain ob1 where wb: "write_buffer p args' ?ob = (Return [LBoolean True], ob1)"
      using h by (cases "write_buffer p args' ?ob") auto
    note wbr = write_buffer_Return [OF wb]
    let ?w1 = "upd_obj a' (\<lambda>obj. obj\<lparr>output_buffer := ob1\<rparr>) w'"
    have apr1: "apr ?w1 = apr w'" by (simp add: upd_obj_def)
    have ne: "wb_data ob1 \<noteq> []" using h wb by simp
    have v: "valid_socket (wb_object ob1) (apr w')" using h wbr by simp
    obtain N where fl: "flush_buffer ob1 (apr w') = (st, ob1, N)"
      using flush_buffer_failure [OF ne _ _ v] h by blast
    have cN: "calls N = calls (apr w') @ [Socket_send (wb_object ob1) (wb_data ob1)]"
      using fl ne h
      by (auto simp: flush_buffer_def apr_socket_send_def split: prod.splits if_splits
          dest: native_on_calls)
    have "socket_write p args' w'
            = (Return (push_error_status p st),
               upd_obj a' (\<lambda>obj. obj\<lparr>output_buffer := ob1\<rparr>) (?w1\<lparr>apr := N\<rparr>))"
      using chk wb fl h by (simp add: socket_write_def Let_def apr1)
    with cN wbr
    show "fst (socket_write p args' w') = Return [LNil, LString (apr_strerror p st)]
      \<and> calls (apr (snd (socket_write p args' w')))
          = calls (apr w')
            @ [Socket_send (wb_object (output_buffer (heap w' ! a')))
                 (wb_data (output_buffer (heap w' ! a')) @ written_bytes (number2str p) args')]"
      by (simp add: push_error_status_def upd_obj_def)
  qed
  ultimately show ?thesis by blast
qed


lemma failing_world_eq: "failing_world =
  \<lparr>heap =
     [\<lparr>input_buffer = \<lparr>rb_object = Some 0, rb_data = []\<rparr>,
         output_buffer = \<lparr>wb_object = Some 0, wb_data = []\<rparr>, pool = Some 0,
         handle = Some 0, family = 2, protocol = 6\<rparr>],
     apr =
       \<lparr>pools = [True],
          sockets =
            [\<lparr>socketdes = True, timeout = - 1,
                local_addr = None, remote_addr = None, sent = [],
                listen_queue = None\<rparr>],
          script = [111],
          calls = [Pool_create, Socket_create 2 1 6 (Some 0)]\<rparr>\<rparr>"
  by (simp add: failing_world_def lua_apr_socket_create_def world0_def linux_def luaL_checkoption_def
     luaL_optstring_def family_check_def family_options_def family_values_def
     socket_alloc_def new_object_def apr_pool_create_def native_def upd_obj_def
     apr_socket_create_def new_socket_def fresh_socket_def socket_init_def init_buffers_def)

lemma write_buffer_abc:
  "write_buffer linux [LUserdata 0, LString ''abc'', LString ''def''] \<lparr>wb_object = Some 0, wb_data = []\<rparr>
     = (Return [LBoolean True], \<lparr>wb_object = Some 0, wb_data = ''abcdef''\<rparr>)"
  by (simp add: write_buffer_def luaL_checkstring_def arg_def push_status_def numeral_2_eq_2)

lemma socket_write_abc:
  "fst (socket_write linux [LUserdata 0, LString ''abc'', LString ''def''] open_world)
     = Return [LBoolean True]"
  "sent (sockets (apr (snd (socket_write linux [LUserdata 0, LString ''abc'', LString ''def''] open_world))) ! 0)
     = ''abcdef''"
  by (simp_all add: open_world_eq socket_write_def socket_check_def check_object_def write_buffer_abc
      upd_obj_def flush_buffer_def apr_socket_send_def native_on_def valid_socket_def native_def
      upd_socket_def Let_def)

lemma written_bytes_abc:
  "written_bytes (number2str linux) [LUserdata 0, LString ''abc'', LString ''def''] = ''abcdef''"
  by (simp add: written_bytes_def luaL_checkstring_def arg_def upt_rec)

theorem socket_write_flushes_witness:
  "arg [LUserdata 0, LString ''abc'', LString ''def''] 1 = Some (LUserdata 0)
   \<and> fst (socket_write linux [LUserdata 0, LString ''abc'', LString ''def''] open_world)
       = Return [LBoolean True]
   \<and> wb_data (output_buffer
        (heap (snd (socket_write linux [LUserdata 0, LString ''abc'', LString ''def''] open_world)) ! 0)) = []
   \<and> wb_object (output_buffer (heap open_world ! 0)) = Some 0
   \<and> sent (sockets (apr (snd (socket_write linux [LUserdata 0, LString ''abc'', LString ''def''] open_world))) ! 0)
       = ''abcdef''
   \<and> 0 < length (heap failing_world) \<and> handle (heap failing_world ! 0) \<noteq> None
   \<and> valid_socket (wb_object (output_buffer (heap failing_world ! 0))) (apr failing_world)
   \<and> write_buffer linux [LUserdata 0, LString ''abc'', LString ''def'']
         (output_buffer (heap failing_world ! 0))
       = (Return [LBoolean True], \<lparr>wb_object = Some 0, wb_data = ''abcdef''\<rparr>)
   \<and> script (apr failing_world) = [111]
   \<and> fst (socket_write linux [LUserdata 0, LString ''abc'', LString ''def''] failing_world)
       = Return [LNil, LString ''Connection refused'']"
proof -
  let ?args = "[LUserdata 0, LString ''abc'', LString ''def'']"
  let ?w1 = "snd (socket_write linux ?args open_world)"
  note T = socket_write_flushes [where args = ?args and a = 0 and p = linux and w = open_world
          and ?w1.0 = ?w1 and args' = ?args and a' = 0
          and w' = failing_world and st = 111 and rest = "[]"]
  have a1: "arg ?args 1 = Some (LUserdata 0)" by simp
  have s1: "socket_write linux ?args open_world = (Return [LBoolean True], ?w1)"
    using socket_write_abc(1) by (simp add: prod_eq_iff)
  have o: "wb_object (output_buffer (heap open_world ! 0)) = Some 0"
    and d: "wb_data (output_buffer (heap open_world ! 0)) = []"
    by (simp_all add: open_world_eq)
  have f1: "0 < length (heap failing_world)" and f2: "handle (heap failing_world ! 0) \<noteq> None"
    and f3: "valid_socket (wb_object (output_buffer (heap failing_world ! 0))) (apr failing_world)"
    and f4: "write_buffer linux ?args (output_buffer (heap failing_world ! 0))
               = (Return [LBoolean True], \<lparr>wb_object = Some 0, wb_data = ''abcdef''\<rparr>)"
    and f5: "script (apr failing_world) = [111]"
    by (simp_all add: failing_world_eq valid_socket_def write_buffer_abc)
  have e: "apr_strerror linux 111 = ''Connection refused''"
    by (simp add: linux_def linux_strerror_def)
  from T a1 s1 o d written_bytes_abc
  have A: "wb_data (output_buffer (heap ?w1 ! 0)) = []"
    and B: "sent (sockets (apr ?w1) ! 0) = sent (sockets (apr open_world) ! 0) @ ''abcdef''"
    by simp_all
  have B': "sent (sockets (apr ?w1) ! 0) = ''abcdef''"
    using B by (simp add: open_world_eq)
  from T a1 f1 f2 f3 f4 f5 e
  have C: "fst (socket_write linux ?args failing_world) = Return [LNil, LString ''Connection refused'']"
    by simp
  from a1 socket_write_abc(1) A o B' f1 f2 f3 f4 f5 C show ?thesis by blast
qed

subsection \<open>Listen\<close>










subsection \<open>Address family tokens\<close>

lemma find_option_None: "find_option name lst i = None \<longleftrightarrow> name \<notin> set lst"
  by (induction lst arbitrary: i) auto

lemma find_option_Some:
  "find_option name lst i = Some k \<Longrightarrow> \<exists>j < length lst. k = i + j \<and> lst ! j = name"
proof (induction lst arbitrary: i)
  case Nil
  then show ?case by simp
next
  case (Cons x lst)
  show ?case
  proof (cases "x = name")
    case True
    with Cons.prems show ?thesis by auto
  next
    case False
    with Cons.prems have "find_option name lst (Suc i) = Some k" by simp
    from Cons.IH [OF this] obtain j where "j < length lst" and "k = Suc i + j" and "lst ! j = name"
      by blast
    then have "Suc j < length (x # lst) \<and> k = i + Suc j \<and> (x # lst) ! Suc j = name"
      by simp
    then show ?thesis by blast
  qed
qed

lemma luaL_checkoption_cases:
  "(\<exists>k < length lst. luaL_checkoption n2s args i def lst = Return k)
   \<or> (\<exists>msg. luaL_checkoption n2s args i def lst = Raise (Arg_error i msg))"
proof (cases "luaL_optstring n2s args i def")
  case (Return name)
  show ?thesis
  proof (cases "find_option name lst 0")
    case None
    with Return show ?thesis by (simp add: luaL_checkoption_def)
  next
    case (Some k)
    with find_option_Some [OF Some] Return show ?thesis by (auto simp: luaL_checkoption_def)
  qed
next
  case (Raise e)
  then have "\<exists>msg. e = Arg_error i msg"
    by (auto simp: luaL_optstring_def luaL_checkstring_def luaL_typerror_def
        split: option.splits lua_value.splits)
  with Raise show ?thesis by (auto simp: luaL_checkoption_def)
next
  case Uninitialised_deref
  then show ?thesis
    by (auto simp: luaL_optstring_def luaL_checkstring_def split: option.splits lua_value.splits)
qed

lemma luaL_checkstring_cases:
  "(\<exists>s. luaL_checkstring n2s args i = Return s)
   \<or> (\<exists>msg. luaL_checkstring n2s args i = Raise (Arg_error i msg))"
  by (auto simp: luaL_checkstring_def luaL_typerror_def split: option.splits lua_value.splits)

lemma luaL_optstring_token:
  assumes "arg args i = Some (LString t) \<or> arg args i = Some (LNumeral t m)
           \<or> ((arg args i = None \<or> arg args i = Some LNil) \<and> t = def)"
  shows "luaL_optstring n2s args i def = Return t"
  using assms by (auto simp: luaL_optstring_def luaL_checkstring_def)

lemma family_check_resolve:
  assumes "luaL_optstring (number2str p) args i ''inet'' = Return t"
  shows "family_check p args i =
           (case resolveFamily p t of
              Some fam \<Rightarrow> Return fam
            | None \<Rightarrow> Raise (Arg_error i (''invalid option '' @ [CHR 0x27] @ t @ [CHR 0x27])))"
  using assms
  by (auto simp: family_check_def luaL_checkoption_def family_options_def family_values_def
      resolveFamily_def)

lemma family_check_cases:
  "(\<exists>x \<in> {APR_INET p, APR_INET6 p, APR_UNSPEC p}. family_check p args i = Return x)
   \<or> (\<exists>msg. family_check p args i = Raise (Arg_error i msg))"
proof -
  from luaL_checkoption_cases [of "family_options p" "number2str p" args i "''inet''"]
  show ?thesis
  proof
    assume "\<exists>k<length (family_options p).
              luaL_checkoption (number2str p) args i ''inet'' (family_options p) = Return k"
    then obtain k where k: "k < length (family_options p)"
      and r: "luaL_checkoption (number2str p) args i ''inet'' (family_options p) = Return k"
      by blast
    have "family_values p ! k \<in> {APR_INET p, APR_INET6 p, APR_UNSPEC p}"
      using k by (auto simp: family_options_def family_values_def nth_Cons split: if_splits nat.splits)
    with r show ?thesis by (simp add: family_check_def)
  next
    assume "\<exists>msg. luaL_checkoption (number2str p) args i ''inet'' (family_options p)
                    = Raise (Arg_error i msg)"
    then show ?thesis by (auto simp: family_check_def)
  qed
qed

lemma lua_apr_socket_create_invalid_family:
  assumes "family_check p args 2 = Raise (Arg_error 2 msg)"
  shows "\<exists>n msg'. lua_apr_socket_create p args w = (Raise (Arg_error n msg'), w)"
  using luaL_checkoption_cases [of "[''tcp'', ''udp'']" "number2str p" args 1 "''tcp''"] assms
  by (auto simp: lua_apr_socket_create_def)

lemma socket_alloc_calls:
  "socket_alloc fam proto w = (st, objptr, w1) \<Longrightarrow> calls (apr w1) = calls (apr w) @ [Pool_create]"
  by (auto simp: socket_alloc_def Let_def apr_pool_create_def upd_obj_def
      split: prod.splits if_splits dest: native_calls)

lemma apr_socket_create_calls:
  "apr_socket_create partial old fam ty proto pl N = (st, h, N1) \<Longrightarrow>
     calls N1 = calls N @ [Socket_create fam ty proto pl]"
  by (auto simp: apr_socket_create_def new_socket_def split: prod.splits if_splits
      dest: native_calls)

lemma socket_alloc_script_success:
  assumes "set (take (Suc 0) (script (apr w))) \<subseteq> {APR_SUCCESS}"
      and "socket_alloc fam proto w = (st, objptr, w1)"
  shows "st = APR_SUCCESS"
  using assms
  by (auto simp: socket_alloc_def Let_def apr_pool_create_def split: prod.splits if_splits
      dest: native_success)

lemma identities_nth_new:
  assumes "identities w1 = identities w @ [(fam, proto)]"
  shows "length (heap w) < length (heap w1) \<and> family (heap w1 ! length (heap w)) = fam
         \<and> protocol (heap w1 ! length (heap w)) = proto"
proof -
  have "length (identities w1) = Suc (length (identities w))"
    by (simp add: assms)
  then have len: "length (heap w) < length (heap w1)"
    by (simp add: identities_def)
  have "identities w1 ! length (heap w) = (fam, proto)"
    using assms by (simp add: identities_def nth_append)
  with len show ?thesis by (simp add: identities_def)
qed

lemma lua_apr_socket_create_family:
  assumes "luaL_checkoption (number2str p) args 1 ''tcp'' [''tcp'', ''udp''] = Return k"
      and "family_check p args 2 = Return fam"
  shows "(\<exists>r. fst (lua_apr_socket_create p args w) = Return r)
         \<and> length (heap w) < length (heap (snd (lua_apr_socket_create p args w)))
         \<and> family (heap (snd (lua_apr_socket_create p args w)) ! length (heap w)) = fam
         \<and> (set (take (Suc 0) (script (apr w))) \<subseteq> {APR_SUCCESS} \<longrightarrow>
               calls (apr (snd (lua_apr_socket_create p args w)))
                 = calls (apr w)
                   @ [Pool_create,
                      Socket_create fam
                        (if [APR_PROTO_TCP p, APR_PROTO_UDP p] ! k = APR_PROTO_TCP p
                         then SOCK_STREAM p else SOCK_DGRAM p)
                        ([APR_PROTO_TCP p, APR_PROTO_UDP p] ! k)
                        (Some (length (pools (apr w))))])"
proof -
  let ?proto = "[APR_PROTO_TCP p, APR_PROTO_UDP p] ! k"
  let ?ty = "if ?proto = APR_PROTO_TCP p then SOCK_STREAM p else SOCK_DGRAM p"
  obtain st objptr w1 where al: "socket_alloc fam ?proto w = (st, objptr, w1)"
    by (metis prod_cases3)
  note id1 = identities_socket_alloc [OF al]
  note c1 = socket_alloc_calls [OF al]
  show ?thesis
  proof (cases "st = APR_SUCCESS")
    case False
    then have "lua_apr_socket_create p args w = (Return (push_error_status p st), w1)"
      using assms al by (simp add: lua_apr_socket_create_def Let_def)
    moreover have "st = APR_SUCCESS" if "set (take (Suc 0) (script (apr w))) \<subseteq> {APR_SUCCESS}"
      using socket_alloc_script_success [OF that al] .
    ultimately show ?thesis
      using False id1 identities_nth_new [OF id1] by auto
  next
    case True
    note s = socket_alloc_success [OF al [unfolded True]]
    let ?a = "length (heap w)"
    obtain st2 h N where cr: "apr_socket_create (partial_out p) (handle (heap w1 ! ?a)) fam ?ty
                                ?proto (pool (heap w1 ! ?a)) (apr w1) = (st2, h, N)"
      by (metis prod_cases3)
    let ?w2 = "upd_obj ?a (\<lambda>obj. obj\<lparr>handle := h\<rparr>) (w1\<lparr>apr := N\<rparr>)"
    have res: "lua_apr_socket_create p args w =
                 (if st2 \<noteq> APR_SUCCESS then (Return (push_error_status p st2), ?w2)
                  else (Return [LUserdata ?a], socket_init ?a ?w2))"
      using assms al True s cr by (simp add: lua_apr_socket_create_def Let_def)
    have id2: "identities (snd (lua_apr_socket_create p args w)) = identities w @ [(fam, ?proto)]"
      using res id1 by simp
    have pl: "pool (heap w1 ! ?a) = Some (length (pools (apr w)))"
      using s by (simp add: new_object_def)
    have c2: "calls (apr (snd (lua_apr_socket_create p args w)))
                = calls (apr w) @ [Pool_create, Socket_create fam ?ty ?proto (Some (length (pools (apr w))))]"
      using res apr_socket_create_calls [OF cr] c1 pl
      by (simp add: upd_obj_def socket_init_def)
    from res id2 c2 identities_nth_new [OF id2] show ?thesis by auto
  qed
qed


lemma apr_sockaddr_info_get_calls:
  "apr_sockaddr_info_get host fam port N = (st, sa, N1) \<Longrightarrow>
     calls N1 = calls N @ [Sockaddr_info_get host fam port]"
  by (auto simp: apr_sockaddr_info_get_def split: prod.splits dest: native_calls)

lemma apr_sockaddr_ip_get_calls:
  "apr_sockaddr_ip_get f sa N = (st, ip, N1) \<Longrightarrow> calls N1 = calls N @ [Sockaddr_ip_get]"
  by (auto simp: apr_sockaddr_ip_get_def split: prod.splits dest: native_calls)

lemma apr_getnameinfo_calls:
  "apr_getnameinfo f sa N = (st, host, N1) \<Longrightarrow> calls N1 = calls N @ [Getnameinfo]"
  by (auto simp: apr_getnameinfo_def split: prod.splits dest: native_calls)

lemma lua_apr_host_to_addr_invalid_family:
  assumes "to_pool p (apr w) = (Return pl, N0)"
      and "family_check p args 2 = Raise (Arg_error 2 msg)"
  shows "\<exists>n msg'. lua_apr_host_to_addr p args w = (Raise (Arg_error n msg'), w\<lparr>apr := N0\<rparr>)"
  using luaL_checkstring_cases [of "number2str p" args 1] assms
  by (auto simp: lua_apr_host_to_addr_def Let_def)

lemma lua_apr_addr_to_host_invalid_family:
  assumes "to_pool p (apr w) = (Return pl, N0)"
      and "family_check p args 2 = Raise (Arg_error 2 msg)"
  shows "\<exists>n msg'. lua_apr_addr_to_host p args w = (Raise (Arg_error n msg'), w\<lparr>apr := N0\<rparr>)"
  using luaL_checkstring_cases [of "number2str p" args 1] assms
  by (auto simp: lua_apr_addr_to_host_def Let_def)

lemma lua_apr_host_to_addr_family:
  assumes "to_pool p (apr w) = (Return pl, N0)"
      and "luaL_checkstring (number2str p) args 1 = Return host"
      and "family_check p args 2 = Return fam"
  shows "(\<exists>r. fst (lua_apr_host_to_addr p args w) = Return r)
         \<and> (\<exists>rest. calls (apr (snd (lua_apr_host_to_addr p args w)))
                      = calls N0 @ Sockaddr_info_get host fam (word_of_int (SOCK_STREAM p)) # rest)"
proof -
  obtain st sa N1 where
    g: "apr_sockaddr_info_get host fam (word_of_int (SOCK_STREAM p)) N0 = (st, sa, N1)"
    by (metis prod_cases3)
  note c1 = apr_sockaddr_info_get_calls [OF g]
  show ?thesis
  proof (cases "st = APR_SUCCESS")
    case False
    with assms g c1 show ?thesis
      by (simp add: lua_apr_host_to_addr_def Let_def)
  next
    case True
    obtain st2 ip N2 where i: "apr_sockaddr_ip_get (resolve_ip p) sa N1 = (st2, ip, N2)"
      by (metis prod_cases3)
    with assms g c1 True apr_sockaddr_ip_get_calls [OF i] show ?thesis
      by (simp add: lua_apr_host_to_addr_def Let_def)
  qed
qed

lemma lua_apr_addr_to_host_family:
  assumes "to_pool p (apr w) = (Return pl, N0)"
      and "luaL_checkstring (number2str p) args 1 = Return host"
      and "family_check p args 2 = Return fam"
  shows "(\<exists>r. fst (lua_apr_addr_to_host p args w) = Return r)
         \<and> (\<exists>rest. calls (apr (snd (lua_apr_addr_to_host p args w)))
                      = calls N0 @ Sockaddr_info_get host fam (word_of_int (SOCK_STREAM p)) # rest)"
proof -
  obtain st sa N1 where
    g: "apr_sockaddr_info_get host fam (word_of_int (SOCK_STREAM p)) N0 = (st, sa, N1)"
    by (metis prod_cases3)
  note c1 = apr_sockaddr_info_get_calls [OF g]
  show ?thesis
  proof (cases "st = APR_SUCCESS")
    case False
    with assms g c1 show ?thesis
      by (simp add: lua_apr_addr_to_host_def Let_def)
  next
    case True
    obtain st2 nm N2 where i: "apr_getnameinfo (resolve_name p) sa N1 = (st2, nm, N2)"
      by (metis prod_cases3)
    with assms g c1 True apr_getnameinfo_calls [OF i] show ?thesis
      by (simp add: lua_apr_addr_to_host_def Let_def)
  qed
qed

text \<open>
  C8. The family token is the second argument of \<^verbatim>\<open>apr.socket_create\<close>, \<^verbatim>\<open>apr.host_to_addr\<close>
  and \<^verbatim>\<open>apr.addr_to_host\<close>; \<open>t\<close> is the token given as a string, or \<^verbatim>\<open>inet\<close> when the
  argument is absent or nil. \<^verbatim>\<open>family_check\<close> computes exactly \<open>resolveFamily\<close>: a valid token
  yields its platform constant, every other token (also \<^verbatim>\<open>inet6\<close> on a platform without
  IPv6) raises the parameter error \<^verbatim>\<open>invalid option '...'\<close> for argument 2. With an invalid
  token all three functions raise a parameter error: \<^verbatim>\<open>apr.socket_create\<close> leaves the world
  as it was, the two lookups have done nothing but \<^verbatim>\<open>to_pool\<close>. With a valid token the
  constant is the one the functions use: \<^verbatim>\<open>apr.socket_create\<close>, given a valid protocol,
  returns a new socket object whose family is the constant and, when the pool can be
  created, asks the native layer for a socket of that family; the two lookups, given a
  host string, return a result and resolve the host with that family. Whatever the
  argument, \<^verbatim>\<open>family_check\<close> returns one of the three constants or raises a parameter error.
\<close>

theorem family_token_resolution:
  assumes "arg args 2 = Some (LString t) \<or> arg args 2 = Some (LNumeral t m)
           \<or> ((arg args 2 = None \<or> arg args 2 = Some LNil) \<and> t = ''inet'')"
  shows "family_check p args 2 =
           (case resolveFamily p t of
              Some fam \<Rightarrow> Return fam
            | None \<Rightarrow> Raise (Arg_error 2 (''invalid option '' @ [CHR 0x27] @ t @ [CHR 0x27])))
         \<and> (resolveFamily p t = None \<longrightarrow>
               (\<exists>n msg. lua_apr_socket_create p args w = (Raise (Arg_error n msg), w))
               \<and> (\<forall>pl N0. to_pool p (apr w) = (Return pl, N0) \<longrightarrow>
                     (\<exists>n msg. lua_apr_host_to_addr p args w
                                = (Raise (Arg_error n msg), w\<lparr>apr := N0\<rparr>))
                     \<and> (\<exists>n msg. lua_apr_addr_to_host p args w
                                  = (Raise (Arg_error n msg), w\<lparr>apr := N0\<rparr>))))
         \<and> (\<forall>fam. resolveFamily p t = Some fam \<longrightarrow>
               (\<forall>k. luaL_checkoption (number2str p) args 1 ''tcp'' [''tcp'', ''udp''] = Return k \<longrightarrow>
                  (\<exists>r. fst (lua_apr_socket_create p args w) = Return r)
                  \<and> length (heap w) < length (heap (snd (lua_apr_socket_create p args w)))
                  \<and> family (heap (snd (lua_apr_socket_create p args w)) ! length (heap w)) = fam
                  \<and> (set (take (Suc 0) (script (apr w))) \<subseteq> {APR_SUCCESS} \<longrightarrow>
                        calls (apr (snd (lua_apr_socket_create p args w)))
                          = calls (apr w)
                            @ [Pool_create,
                               Socket_create fam
                                 (if [APR_PROTO_TCP p, APR_PROTO_UDP p] ! k = APR_PROTO_TCP p
                                  then SOCK_STREAM p else SOCK_DGRAM p)
                                 ([APR_PROTO_TCP p, APR_PROTO_UDP p] ! k)
                                 (Some (length (pools (apr w))))]))
               \<and> (\<forall>pl N0 host. to_pool p (apr w) = (Return pl, N0)
                                 \<and> luaL_checkstring (number2str p) args 1 = Return host \<longrightarrow>
                     (\<exists>r. fst (lua_apr_host_to_addr p args w) = Return r)
                     \<and> (\<exists>rest. calls (apr (snd (lua_apr_host_to_addr p args w)))
                                  = calls N0
                                    @ Sockaddr_info_get host fam (word_of_int (SOCK_STREAM p)) # rest)
                     \<and> (\<exists>r. fst (lua_apr_addr_to_host p args w) = Return r)
                     \<and> (\<exists>rest. calls (apr (snd (lua_apr_addr_to_host p args w)))
                                  = calls N0
                                    @ Sockaddr_info_get host fam (word_of_int (SOCK_STREAM p)) # rest)))
         \<and> ((\<exists>x \<in> {APR_INET p, APR_INET6 p, APR_UNSPEC p}. family_check p args' i = Return x)
              \<or> (\<exists>msg. family_check p args' i = Raise (Arg_error i msg)))"
  (is "?check \<and> ?invalid \<and> ?valid \<and> ?range")
proof -
  have opt: "luaL_optstring (number2str p) args 2 ''inet'' = Return t"
    by (rule luaL_optstring_token [OF assms])
  have c: ?check by (rule family_check_resolve [OF opt])
  have ?invalid
  proof
    assume "resolveFamily p t = None"
    with c have r: "family_check p args 2
                      = Raise (Arg_error 2 (''invalid option '' @ [CHR 0x27] @ t @ [CHR 0x27]))"
      by simp
    show "(\<exists>n msg. lua_apr_socket_create p args w = (Raise (Arg_error n msg), w))
               \<and> (\<forall>pl N0. to_pool p (apr w) = (Return pl, N0) \<longrightarrow>
                     (\<exists>n msg. lua_apr_host_to_addr p args w
                                = (Raise (Arg_error n msg), w\<lparr>apr := N0\<rparr>))
                     \<and> (\<exists>n msg. lua_apr_addr_to_host p args w
                                  = (Raise (Arg_error n msg), w\<lparr>apr := N0\<rparr>)))"
      using lua_apr_socket_create_invalid_family [OF r]
        lua_apr_host_to_addr_invalid_family [OF _ r]
        lua_apr_addr_to_host_invalid_family [OF _ r]
      by blast
  qed
  moreover have ?valid
  proof (intro allI impI)
    fix fam assume "resolveFamily p t = Some fam"
    with c have r: "family_check p args 2 = Return fam" by simp
    show "(\<forall>k. luaL_checkoption (number2str p) args 1 ''tcp'' [''tcp'', ''udp''] = Return k \<longrightarrow>
                  (\<exists>r. fst (lua_apr_socket_create p args w) = Return r)
                  \<and> length (heap w) < length (heap (snd (lua_apr_socket_create p args w)))
                  \<and> family (heap (snd (lua_apr_socket_create p args w)) ! length (heap w)) = fam
                  \<and> (set (take (Suc 0) (script (apr w))) \<subseteq> {APR_SUCCESS} \<longrightarrow>
                        calls (apr (snd (lua_apr_socket_create p args w)))
                          = calls (apr w)
                            @ [Pool_create,
                               Socket_create fam
                                 (if [APR_PROTO_TCP p, APR_PROTO_UDP p] ! k = APR_PROTO_TCP p
                                  then SOCK_STREAM p else SOCK_DGRAM p)
                                 ([APR_PROTO_TCP p, APR_PROTO_UDP p] ! k)
                                 (Some (length (pools (apr w))))]))
               \<and> (\<forall>pl N0 host. to_pool p (apr w) = (Return pl, N0)
                                 \<and> luaL_checkstring (number2str p) args 1 = Return host \<longrightarrow>
                     (\<exists>r. fst (lua_apr_host_to_addr p args w) = Return r)
                     \<and> (\<exists>rest. calls (apr (snd (lua_apr_host_to_addr p args w)))
                                  = calls N0
                                    @ Sockaddr_info_get host fam (word_of_int (SOCK_STREAM p)) # rest)
                     \<and> (\<exists>r. fst (lua_apr_addr_to_host p args w) = Return r)
                     \<and> (\<exists>rest. calls (apr (snd (lua_apr_addr_to_host p args w)))
                                  = calls N0
                                    @ Sockaddr_info_get host fam (word_of_int (SOCK_STREAM p)) # rest))"
      using lua_apr_socket_create_family [OF _ r, of _ w]
        lua_apr_host_to_addr_family [OF _ _ r, of w]
        lua_apr_addr_to_host_family [OF _ _ r, of w]
      by blast
  qed
  moreover have ?range by (rule family_check_cases)
  ultimately show ?thesis using c by blast
qed


lemma to_pool_linux:
  "to_pool linux (apr (world0 []))
     = (Return 0, \<lparr>pools = [True], sockets = [], script = [], calls = [Pool_create]\<rparr>)"
  "to_pool linux_no_ipv6 (apr (world0 []))
     = (Return 0, \<lparr>pools = [True], sockets = [], script = [], calls = [Pool_create]\<rparr>)"
  by (simp_all add: linux_no_ipv6_def linux_def world0_def apr_pool_create_def native_def)

theorem family_token_resolution_witness:
  "arg [LString ''tcp'', LString ''inet6''] 2 = Some (LString ''inet6'')
   \<and> resolveFamily linux_no_ipv6 ''inet6'' = None
   \<and> family_check linux_no_ipv6 [LString ''tcp'', LString ''inet6''] 2
       = Raise (Arg_error 2 (''invalid option '' @ [CHR 0x27] @ ''inet6'' @ [CHR 0x27]))
   \<and> snd (lua_apr_socket_create linux_no_ipv6 [LString ''tcp'', LString ''inet6''] (world0 []))
       = world0 []
   \<and> to_pool linux_no_ipv6 (apr (world0 []))
       = (Return 0, \<lparr>pools = [True], sockets = [], script = [], calls = [Pool_create]\<rparr>)
   \<and> snd (lua_apr_host_to_addr linux_no_ipv6 [LString ''tcp'', LString ''inet6''] (world0 []))
       = (world0 [])\<lparr>apr := \<lparr>pools = [True], sockets = [], script = [], calls = [Pool_create]\<rparr>\<rparr>
   \<and> snd (lua_apr_addr_to_host linux_no_ipv6 [LString ''tcp'', LString ''inet6''] (world0 []))
       = (world0 [])\<lparr>apr := \<lparr>pools = [True], sockets = [], script = [], calls = [Pool_create]\<rparr>\<rparr>
   \<and> arg [LString ''udp'', LString ''inet6''] 2 = Some (LString ''inet6'')
   \<and> resolveFamily linux ''inet6'' = Some 10
   \<and> luaL_checkoption (number2str linux) [LString ''udp'', LString ''inet6''] 1 ''tcp'' [''tcp'', ''udp'']
       = Return 1
   \<and> set (take (Suc 0) (script (apr (world0 [])))) \<subseteq> {APR_SUCCESS}
   \<and> family (heap (snd (lua_apr_socket_create linux [LString ''udp'', LString ''inet6''] (world0 []))) ! 0)
       = 10
   \<and> calls (apr (snd (lua_apr_socket_create linux [LString ''udp'', LString ''inet6''] (world0 []))))
       = [Pool_create, Socket_create 10 2 17 (Some 0)]
   \<and> arg [] 2 = None
   \<and> resolveFamily linux ''inet'' = Some 2
   \<and> family_check linux [] 2 = Return 2
   \<and> arg [LString ''127.0.0.1'', LString ''unspec''] 2 = Some (LString ''unspec'')
   \<and> resolveFamily linux ''unspec'' = Some 0
   \<and> luaL_checkstring (number2str linux) [LString ''127.0.0.1'', LString ''unspec''] 1
       = Return ''127.0.0.1''
   \<and> calls (apr (snd (lua_apr_host_to_addr linux [LString ''127.0.0.1'', LString ''unspec''] (world0 [])))) ! 1
       = Sockaddr_info_get ''127.0.0.1'' 0 1
   \<and> calls (apr (snd (lua_apr_addr_to_host linux [LString ''127.0.0.1'', LString ''unspec''] (world0 [])))) ! 1
       = Sockaddr_info_get ''127.0.0.1'' 0 1"
proof -
  let ?N0 = "\<lparr>pools = [True], sockets = [], script = [], calls = [Pool_create]\<rparr>"
  have a1: "arg [LString ''tcp'', LString ''inet6''] 2 = Some (LString ''inet6'')"
    and a2: "arg [LString ''udp'', LString ''inet6''] 2 = Some (LString ''inet6'')"
    and a3: "arg [] 2 = None"
    and a4: "arg [LString ''127.0.0.1'', LString ''unspec''] 2 = Some (LString ''unspec'')"
    by simp_all
  have r1: "resolveFamily linux_no_ipv6 ''inet6'' = None"
    and r2: "resolveFamily linux ''inet6'' = Some 10"
    and r3: "resolveFamily linux ''inet'' = Some 2"
    and r4: "resolveFamily linux ''unspec'' = Some 0"
    by (simp_all add: resolveFamily_def linux_no_ipv6_def linux_def)
  have k: "luaL_checkoption (number2str linux) [LString ''udp'', LString ''inet6''] 1 ''tcp'' [''tcp'', ''udp'']
             = Return 1"
    by (simp add: luaL_checkoption_def luaL_optstring_def luaL_checkstring_def)
  have h: "luaL_checkstring (number2str linux) [LString ''127.0.0.1'', LString ''unspec''] 1
             = Return ''127.0.0.1''"
    by (simp add: luaL_checkstring_def)
  have s: "set (take (Suc 0) (script (apr (world0 [])))) \<subseteq> {APR_SUCCESS}"
    and c0: "calls (apr (world0 [])) = []" and p0: "pools (apr (world0 [])) = []"
    and h0: "heap (world0 []) = []"
    by (simp_all add: world0_def)
  have plat: "APR_PROTO_TCP linux = 6" "APR_PROTO_UDP linux = 17" "SOCK_STREAM linux = 1"
    "SOCK_DGRAM linux = 2"
    by (simp_all add: linux_def)
  note T1 = family_token_resolution [where args = "[LString ''tcp'', LString ''inet6'']"
      and t = "''inet6''" and p = linux_no_ipv6 and w = "world0 []" and args' = "[]" and i = 2]
  note T2 = family_token_resolution [where args = "[LString ''udp'', LString ''inet6'']"
      and t = "''inet6''" and p = linux and w = "world0 []" and args' = "[]" and i = 2]
  note T3 = family_token_resolution [where args = "[]" and t = "''inet''" and p = linux and w = "world0 []" and args' = "[]" and i = 2]
  note T4 = family_token_resolution [where args = "[LString ''127.0.0.1'', LString ''unspec'']"
      and t = "''unspec''" and p = linux and w = "world0 []" and args' = "[]" and i = 2]
  from T1 a1 r1 have A: "family_check linux_no_ipv6 [LString ''tcp'', LString ''inet6''] 2
       = Raise (Arg_error 2 (''invalid option '' @ [CHR 0x27] @ ''inet6'' @ [CHR 0x27]))"
    by simp
  from T1 a1 r1 have B:
    "snd (lua_apr_socket_create linux_no_ipv6 [LString ''tcp'', LString ''inet6''] (world0 [])) = world0 []"
    by auto
  from T1 a1 r1 to_pool_linux(2) have C:
    "snd (lua_apr_host_to_addr linux_no_ipv6 [LString ''tcp'', LString ''inet6''] (world0 []))
       = (world0 [])\<lparr>apr := ?N0\<rparr>"
    "snd (lua_apr_addr_to_host linux_no_ipv6 [LString ''tcp'', LString ''inet6''] (world0 []))
       = (world0 [])\<lparr>apr := ?N0\<rparr>"
    by auto
  from T2 a2 r2 k s c0 p0 h0 plat have D:
    "family (heap (snd (lua_apr_socket_create linux [LString ''udp'', LString ''inet6''] (world0 []))) ! 0) = 10"
    "calls (apr (snd (lua_apr_socket_create linux [LString ''udp'', LString ''inet6''] (world0 []))))
       = [Pool_create, Socket_create 10 2 17 (Some 0)]"
    by auto
  from T3 a3 r3 have E: "family_check linux [] 2 = Return 2" by simp
  from T4 a4 r4 h to_pool_linux(1) plat have F:
    "calls (apr (snd (lua_apr_host_to_addr linux [LString ''127.0.0.1'', LString ''unspec''] (world0 [])))) ! 1
       = Sockaddr_info_get ''127.0.0.1'' 0 1"
    "calls (apr (snd (lua_apr_addr_to_host linux [LString ''127.0.0.1'', LString ''unspec''] (world0 [])))) ! 1
       = Sockaddr_info_get ''127.0.0.1'' 0 1"
    by auto
  from a1 r1 A B to_pool_linux(2) C a2 r2 k s D a3 r3 E a4 r4 h F show ?thesis by blast
qed

end
